theory Spec2Isabelle
  imports Main "HOL-Library.Log_Nat"
begin

section \<open>Python values used by \<open>train.py\<close>\<close>

text \<open>
  The exceptions the modelled code and the library calls it makes can raise. A computation
  that may raise returns \<open>py_error + 'a\<close>, with \<open>Inl\<close> the exception.
\<close>

datatype py_error =
    ZeroDivisionError | OverflowError | ValueError | KeyError
  | FileExistsError | FileNotFoundError | NotADirectoryError | IsADirectoryError
  | PermissionError | RuntimeError

text \<open>
  A Python \<open>float\<close> is an IEEE-754 binary64 value. A finite one is represented by the
  rational number it denotes, the two zeros being identified (they compare equal, and no
  modelled operation tells them apart); the infinities and the NaN are separate values.
\<close>

datatype float64 = Finite rat | PInf | NInf | NaN

text \<open>The comparisons \<open><\<close>, \<open><=\<close> and \<open>>\<close> of two floats: every comparison with a NaN is false.\<close>

fun float_lt :: "float64 \<Rightarrow> float64 \<Rightarrow> bool" where
  "float_lt NaN _ = False"
| "float_lt _ NaN = False"
| "float_lt (Finite a) (Finite b) = (a < b)"
| "float_lt (Finite _) PInf = True"
| "float_lt (Finite _) NInf = False"
| "float_lt PInf _ = False"
| "float_lt NInf NInf = False"
| "float_lt NInf _ = True"

fun float_le :: "float64 \<Rightarrow> float64 \<Rightarrow> bool" where
  "float_le NaN _ = False"
| "float_le _ NaN = False"
| "float_le (Finite a) (Finite b) = (a \<le> b)"
| "float_le (Finite _) PInf = True"
| "float_le (Finite _) NInf = False"
| "float_le PInf PInf = True"
| "float_le PInf _ = False"
| "float_le NInf _ = True"

definition float_gt :: "float64 \<Rightarrow> float64 \<Rightarrow> bool" where
  "float_gt a b = float_lt b a"

subsection \<open>Rounding to binary64\<close>

definition pow2 :: "int \<Rightarrow> rat" where
  "pow2 e = (if 0 \<le> e then 2 ^ nat e else 1 / 2 ^ nat (- e))"

text \<open>Round to the nearest integer, a tie going to the even one.\<close>

definition round_half_even :: "rat \<Rightarrow> int" where
  "round_half_even q =
     (let f = \<lfloor>q\<rfloor>; d = q - of_int f
      in if d < 1 / 2 then f else if 1 / 2 < d then f + 1 else if even f then f else f + 1)"

text \<open>The binary exponent of a positive rational: \<open>2 ^ e \<le> x < 2 ^ (e + 1)\<close>.\<close>

definition exponent :: "rat \<Rightarrow> int" where
  "exponent x = (if 1 \<le> x then bitlen \<lfloor>x\<rfloor> - 1 else - bitlen (\<lceil>1 / x\<rceil> - 1))"

text \<open>
  Round-to-nearest-even into binary64: 53 significant bits, the exponent not below
  \<open>-1022\<close> (subnormal numbers below it). The significand \<open>n\<close> has at most 53 bits, or is
  \<open>2 ^ 53\<close> when the rounding carries into the next binade; the result overflows to an
  infinity when it reaches \<open>2 ^ 1024\<close>.
\<close>

definition round_float64 :: "rat \<Rightarrow> float64" where
  "round_float64 x =
     (if x = 0 then Finite 0
      else let e = max (exponent \<bar>x\<bar>) (- 1022);
               ulp = pow2 (e - 52);
               n = round_half_even (x / ulp)
           in if 1024 \<le> e \<or> (e = 1023 \<and> 2 ^ 53 \<le> \<bar>n\<bar>)
              then (if 0 < x then PInf else NInf)
              else Finite (of_int n * ulp))"

text \<open>The spacing of the binary64 numbers around \<open>x\<close>.\<close>

definition ulp :: "rat \<Rightarrow> rat" where
  "ulp x = pow2 (max (exponent \<bar>x\<bar>) (- 1022) - 52)"

subsection \<open>Arithmetic of \<open>int\<close> and \<open>float\<close>\<close>

text \<open>\<open>float(n)\<close> of an \<open>int\<close>, also the implicit conversion in \<open>n * x\<close>.\<close>

definition float_of_int :: "int \<Rightarrow> py_error + float64" where
  "float_of_int n =
     (case round_float64 (of_int n) of Finite r \<Rightarrow> Inr (Finite r) | _ \<Rightarrow> Inl OverflowError)"

text \<open>\<open>a / b\<close> of two \<open>int\<close>s: the correctly rounded quotient.\<close>

definition int_truediv :: "int \<Rightarrow> int \<Rightarrow> py_error + float64" where
  "int_truediv a b =
     (if b = 0 then Inl ZeroDivisionError
      else case round_float64 (of_int a / of_int b) of
             Finite r \<Rightarrow> Inr (Finite r)
           | _ \<Rightarrow> Inl OverflowError)"

text \<open>\<open>x * y\<close> of two floats.\<close>

fun float_mul :: "float64 \<Rightarrow> float64 \<Rightarrow> float64" where
  "float_mul NaN _ = NaN"
| "float_mul _ NaN = NaN"
| "float_mul (Finite a) (Finite b) = round_float64 (a * b)"
| "float_mul (Finite a) PInf = (if a = 0 then NaN else if 0 < a then PInf else NInf)"
| "float_mul (Finite a) NInf = (if a = 0 then NaN else if 0 < a then NInf else PInf)"
| "float_mul PInf (Finite b) = (if b = 0 then NaN else if 0 < b then PInf else NInf)"
| "float_mul NInf (Finite b) = (if b = 0 then NaN else if 0 < b then NInf else PInf)"
| "float_mul PInf PInf = PInf"
| "float_mul PInf NInf = NInf"
| "float_mul NInf PInf = NInf"
| "float_mul NInf NInf = PInf"

text \<open>\<open>n * x\<close> and \<open>x * n\<close> of an \<open>int\<close> and a \<open>float\<close>: the \<open>int\<close> is converted first.\<close>

definition int_mul_float :: "int \<Rightarrow> float64 \<Rightarrow> py_error + float64" where
  "int_mul_float n x =
     (case float_of_int n of Inl e \<Rightarrow> Inl e | Inr y \<Rightarrow> Inr (float_mul y x))"

definition float_mul_int :: "float64 \<Rightarrow> int \<Rightarrow> py_error + float64" where
  "float_mul_int x n =
     (case float_of_int n of Inl e \<Rightarrow> Inl e | Inr y \<Rightarrow> Inr (float_mul x y))"

text \<open>\<open>int(x)\<close> of a float: truncation towards zero.\<close>

fun int_of_float :: "float64 \<Rightarrow> py_error + int" where
  "int_of_float (Finite r) = Inr (if 0 \<le> r then \<lfloor>r\<rfloor> else \<lceil>r\<rceil>)"
| "int_of_float PInf = Inl OverflowError"
| "int_of_float NInf = Inl OverflowError"
| "int_of_float NaN = Inl ValueError"

text \<open>
  The builtins \<open>max(a, b)\<close> and \<open>min(a, b)\<close>: the first argument unless the second is
  greater, or smaller.
\<close>

definition float_max :: "float64 \<Rightarrow> float64 \<Rightarrow> float64" where
  "float_max a b = (if float_gt b a then b else a)"

definition float_min :: "float64 \<Rightarrow> float64 \<Rightarrow> float64" where
  "float_min a b = (if float_lt b a then b else a)"

section \<open>Sequencing computations that may raise\<close>

definition py_bind :: "py_error + 'a \<Rightarrow> ('a \<Rightarrow> py_error + 'b) \<Rightarrow> py_error + 'b" where
  "py_bind m f = (case m of Inl e \<Rightarrow> Inl e | Inr x \<Rightarrow> f x)"

section \<open>The learning-rate schedule\<close>

text \<open>
  \<^verbatim>\<open>warmup_steps = int(total_steps * config.training.warmup_ratio)\<close>
\<close>

definition compute_warmup_steps :: "int \<Rightarrow> float64 \<Rightarrow> py_error + int" where
  "compute_warmup_steps total_steps warmup_ratio =
     py_bind (int_mul_float total_steps warmup_ratio) int_of_float"

text \<open>
  The closure \<open>lr_warmup_linear_decay\<close>, with the two variables it captures as arguments:
  \<^verbatim>\<open>
  def lr_warmup_linear_decay(step: int):
      return (step / warmup_steps) if step < warmup_steps
             else max(0.0, (total_steps - step) / (total_steps - warmup_steps))
  \<close>
\<close>

definition lr_warmup_linear_decay :: "int \<Rightarrow> int \<Rightarrow> int \<Rightarrow> py_error + float64" where
  "lr_warmup_linear_decay warmup_steps total_steps step =
     (if step < warmup_steps then int_truediv step warmup_steps
      else py_bind (int_truediv (total_steps - step) (total_steps - warmup_steps))
             (\<lambda>x. Inr (float_max (Finite 0) x)))"

section \<open>The dataset split\<close>

text \<open>
  \<^verbatim>\<open>
  train_size = int(config.data.train_ratio * dataset_size)
  test_val_size = dataset_size - train_size
  test_size = int(test_val_size * config.data.test_val_ratio)
  val_size = test_val_size - test_size
  \<close>
  The result is \<open>(train_size, test_size, val_size)\<close>.
\<close>

definition split_sizes :: "float64 \<Rightarrow> float64 \<Rightarrow> int \<Rightarrow> py_error + (int \<times> int \<times> int)" where
  "split_sizes train_ratio test_val_ratio dataset_size =
     py_bind (py_bind (float_mul_int train_ratio dataset_size) int_of_float) (\<lambda>train_size.
       let test_val_size = dataset_size - train_size
       in py_bind (py_bind (int_mul_float test_val_size test_val_ratio) int_of_float) (\<lambda>test_size.
            let val_size = test_val_size - test_size
            in Inr (train_size, test_size, val_size)))"

section \<open>The model selector\<close>

type_synonym metrics = "string \<rightharpoonup> float64"

definition metrics_get :: "metrics \<Rightarrow> string \<Rightarrow> py_error + float64" where
  "metrics_get m k = (case m k of None \<Rightarrow> Inl KeyError | Some v \<Rightarrow> Inr v)"

text \<open>The lines the program prints, each with the values it formats.\<close>

datatype console_line =
    DeviceLine
  | TrainSizeLine int
  | ValidationSizeLine int
  | TestSizeLine int
  | BlankLine
  | EpochLine int int
  | TrainLine float64 float64
  | ValLine float64 float64
  | NewBestLine string float64
  | TestLines metrics
  | ModelSavedLine

text \<open>
  \<^verbatim>\<open>
  def manage_best_model_and_metrics(model, evaluation_metric, val_metrics,
                                    best_val_metric, best_model, lower_is_better):
      metric = val_metrics[evaluation_metric]
      if lower_is_better:
          is_best = metric <= best_val_metric
      else:
          is_best = metric > best_val_metric
      if is_best:
          print(f"New best model found with val {evaluation_metric}: {metric:.4f}")
          best_val_metric = metric
          best_model = model
      return best_val_metric, best_model
  \<close>
  A model is passed and returned as a reference \<open>'m\<close>. The result carries the returned
  pair and the lines printed.
\<close>

definition manage_best_model_and_metrics ::
  "'m \<Rightarrow> string \<Rightarrow> metrics \<Rightarrow> float64 \<Rightarrow> 'm \<Rightarrow> bool
     \<Rightarrow> py_error + ((float64 \<times> 'm) \<times> console_line list)" where
  "manage_best_model_and_metrics model evaluation_metric val_metrics best_val_metric best_model
       lower_is_better =
     py_bind (metrics_get val_metrics evaluation_metric) (\<lambda>metric.
       let is_best = (if lower_is_better then float_le metric best_val_metric
                      else float_gt metric best_val_metric)
       in if is_best then Inr ((metric, model), [NewBestLine evaluation_metric metric])
          else Inr ((best_val_metric, best_model), []))"

section \<open>The training run\<close>

subsection \<open>Configuration and collaborators\<close>

text \<open>The fields of \<open>Config\<close> that \<open>train.py\<close> reads and that decide what it does.\<close>

record config =
  train_ratio :: float64
  test_val_ratio :: float64
  batch_size :: int
  epochs :: int
  warmup_ratio :: float64
  evaluation_metric :: string
  best_metric_lower_is_better :: bool
  checkpoint_dir :: string
  model_name :: string

datatype partition = Val | Test

text \<open>
  What \<open>train.py\<close> imports and calls, taken as parameters: \<open>'p\<close> is the state of a
  module's parameters, \<open>'b\<close> a batch, \<open>'o\<close> what one training batch contributes to the
  epoch's metrics (its loss, predictions and references).
  \<^item> \<open>dataset_size\<close>: \<open>len(dataset)\<close>, a length, so never negative;
  \<^item> \<open>new_model\<close>: the parameters of a freshly constructed \<open>EmovoCNN\<close>;
  \<^item> \<open>batch_at k i\<close>: batch \<open>i\<close> of the shuffled training loader in epoch \<open>k\<close>;
  \<^item> \<open>train_batch p f b\<close>: forward pass, loss, backward pass and \<open>optimizer.step()\<close> on
    batch \<open>b\<close> from parameters \<open>p\<close> with the learning-rate factor \<open>f\<close> in force: the
    updated parameters and the batch's contribution to the metrics;
  \<^item> \<open>compute_metrics\<close> and \<open>evaluate\<close>: the functions of module \<open>metrics\<close>;
  \<^item> \<open>makedirs d f\<close> and \<open>save p path f\<close>: what \<open>os.makedirs(d, exist_ok=True)\<close> and
    \<open>torch.save\<close> of the parameters \<open>p\<close> to \<open>path\<close> do on the file system \<open>f\<close>, of a
    type \<open>'f\<close> left open: the file system they leave, or the exception they raise. How
    a path is resolved, and which paths the operating system refuses, is theirs to say.
\<close>

record ('p, 'b, 'o, 'f) collab =
  dataset_size :: int
  new_model :: 'p
  batch_at :: "nat \<Rightarrow> nat \<Rightarrow> 'b"
  train_batch :: "'p \<Rightarrow> float64 \<Rightarrow> 'b \<Rightarrow> 'p \<times> 'o"
  compute_metrics :: "'o list \<Rightarrow> int \<Rightarrow> metrics"
  evaluate :: "'p \<Rightarrow> partition \<Rightarrow> metrics"
  makedirs :: "string \<Rightarrow> 'f \<Rightarrow> py_error + 'f"
  save :: "'p \<Rightarrow> string \<Rightarrow> 'f \<Rightarrow> py_error + 'f"

subsection \<open>State\<close>

text \<open>
  What the run does that is visible from outside, in order: the lines printed, the
  optimizer and scheduler steps, the evaluations (with the object evaluated and the
  parameters it had then), and the two file-system calls.
\<close>

datatype 'p event =
    Print console_line
  | OptimizerStep
  | SchedulerStep int
  | Evaluate partition nat 'p
  | Makedirs string
  | TorchSave string 'p

text \<open>
  Module objects live in a store, from addresses to parameter states; the variables
  \<open>model\<close> and \<open>best_model\<close> hold addresses, and an assignment between them copies an
  address, never the parameters. \<open>last_epoch\<close> is the scheduler's step counter and
  \<open>lr_factor\<close> the value of \<open>lr_lambda\<close> it computed last. \<open>fsys\<close> is the file system.
\<close>

record ('p, 'f) state =
  store :: "nat \<Rightarrow> 'p"
  model :: nat
  best_model :: nat
  best_val_metric :: float64
  last_epoch :: int
  lr_factor :: float64
  trace :: "'p event list"
  fsys :: 'f

definition emit :: "'p event list \<Rightarrow> ('p, 'f) state \<Rightarrow> ('p, 'f) state" where
  "emit es s = s\<lparr>trace := trace s @ es\<rparr>"

subsection \<open>Library calls\<close>

text \<open>
  The length of the slice \<open>xs[a:b]\<close> of a list of \<open>n\<close> elements: a negative index
  counts from the end, and both indices are clamped to \<open>0 \<dots> n\<close>.
\<close>

definition slice_index :: "int \<Rightarrow> int \<Rightarrow> int" where
  "slice_index n i = (if i < 0 then max (i + n) 0 else min i n)"

definition slice_len :: "int \<Rightarrow> int \<Rightarrow> int \<Rightarrow> int" where
  "slice_len n a b = max 0 (slice_index n b - slice_index n a)"

text \<open>\<open>itertools.accumulate\<close>: the running sums, from \<open>acc\<close>.\<close>

fun accumulate :: "int \<Rightarrow> int list \<Rightarrow> int list" where
  "accumulate acc [] = []"
| "accumulate acc (x # xs) = (acc + x) # accumulate (acc + x) xs"

text \<open>
  \<open>torch.utils.data.random_split(dataset, lengths)\<close> for a dataset of \<open>n\<close> samples and
  \<open>int\<close> lengths: the lengths of the subsets returned.
  \<^item> Lengths whose sum is 1 are read as fractions: each must lie in \<open>0 \<dots> 1\<close>, and the
    length of a subset is \<open>floor(n * frac)\<close>. Fractions that are integers of sum 1
    are one 1 among 0s, so these lengths add up to \<open>n\<close> and leave no remainder to
    spread over the subsets.
  \<^item> Lengths that do not add up to \<open>n\<close> are rejected.
  \<^item> The subsets are the slices \<open>indices[offset - length : offset]\<close> of a permutation of
    the \<open>n\<close> indices, \<open>offset\<close> running over the sums of the lengths so far.
\<close>

definition random_split :: "int \<Rightarrow> int list \<Rightarrow> py_error + int list" where
  "random_split n lengths =
     py_bind (if sum_list lengths = 1
              then (if list_ex (\<lambda>frac. frac < 0 \<or> 1 < frac) lengths then Inl ValueError
                    else Inr (map (\<lambda>frac. n * frac) lengths))
              else Inr lengths) (\<lambda>lengths.
     if sum_list lengths \<noteq> n then Inl ValueError
     else Inr (map (\<lambda>(offset, length). slice_len n (offset - length) offset)
                 (zip (accumulate 0 lengths) lengths)))"

text \<open>
  \<open>len(DataLoader(dataset, batch_size = batch_size, shuffle = shuffle))\<close> for a dataset
  of \<open>n\<close> samples: with \<open>shuffle\<close> the constructor builds a \<open>RandomSampler\<close>, which
  rejects an empty dataset; it rejects a batch size that is not positive; the last batch
  may be partial.
\<close>

definition dataloader_len :: "int \<Rightarrow> int \<Rightarrow> bool \<Rightarrow> py_error + int" where
  "dataloader_len n bs shuffle =
     (if shuffle \<and> n \<le> 0 then Inl ValueError
      else if bs \<le> 0 then Inl ValueError
      else Inr ((n + bs - 1) div bs))"

text \<open>\<open>scheduler.step()\<close> of a \<open>LambdaLR\<close> built on \<open>lr_warmup_linear_decay\<close>.\<close>

definition scheduler_step :: "int \<Rightarrow> int \<Rightarrow> ('p, 'f) state \<Rightarrow> py_error + ('p, 'f) state" where
  "scheduler_step warmup_steps total_steps s =
     (let n = last_epoch s + 1
      in py_bind (lr_warmup_linear_decay warmup_steps total_steps n) (\<lambda>f.
           Inr (emit [SchedulerStep n] (s\<lparr>last_epoch := n, lr_factor := f\<rparr>))))"

text \<open>
  \<open>os.makedirs(d, exist_ok=True)\<close> and \<open>torch.save(obj, path)\<close>, on the file system of
  the state: a call that returns is recorded in the trace.
\<close>

definition os_makedirs ::
  "('p, 'b, 'o, 'f) collab \<Rightarrow> string \<Rightarrow> ('p, 'f) state \<Rightarrow> py_error + ('p, 'f) state" where
  "os_makedirs c d s =
     py_bind (makedirs c d (fsys s)) (\<lambda>f. Inr (emit [Makedirs d] (s\<lparr>fsys := f\<rparr>)))"

definition torch_save ::
  "('p, 'b, 'o, 'f) collab \<Rightarrow> 'p \<Rightarrow> string \<Rightarrow> ('p, 'f) state \<Rightarrow> py_error + ('p, 'f) state" where
  "torch_save c p path s =
     py_bind (save c p path (fsys s)) (\<lambda>f. Inr (emit [TorchSave path p] (s\<lparr>fsys := f\<rparr>)))"

subsection \<open>\<open>train_one_epoch\<close>\<close>

text \<open>
  The batch loop of \<open>train_one_epoch\<close>: per batch the parameters of the object at \<open>m\<close>
  are updated in place, then the scheduler steps, then the batch's loss and predictions
  are accumulated.
\<close>

fun train_loop ::
  "('p, 'b, 'o, 'f) collab \<Rightarrow> int \<Rightarrow> int \<Rightarrow> nat \<Rightarrow> 'b list \<Rightarrow> 'o list \<Rightarrow> ('p, 'f) state
     \<Rightarrow> py_error + (('p, 'f) state \<times> 'o list)" where
  "train_loop c warmup_steps total_steps m [] acc s = Inr (s, acc)"
| "train_loop c warmup_steps total_steps m (b # bs) acc s =
     (let (p', ob) = train_batch c (store s m) (lr_factor s) b;
          s1 = emit [OptimizerStep] (s\<lparr>store := (store s)(m := p')\<rparr>)
      in py_bind (scheduler_step warmup_steps total_steps s1) (\<lambda>s2.
           train_loop c warmup_steps total_steps m bs (acc @ [ob]) s2))"

definition train_one_epoch ::
  "('p, 'b, 'o, 'f) collab \<Rightarrow> int \<Rightarrow> int \<Rightarrow> nat \<Rightarrow> 'b list \<Rightarrow> ('p, 'f) state
     \<Rightarrow> py_error + (('p, 'f) state \<times> metrics)" where
  "train_one_epoch c warmup_steps total_steps m dataloader s =
     py_bind (train_loop c warmup_steps total_steps m dataloader [] s) (\<lambda>(s', obs).
       Inr (s', compute_metrics c obs (int (length dataloader))))"

subsection \<open>The script\<close>

text \<open>The batches of the training loader in epoch \<open>k\<close>, \<open>len_train_dl\<close> of them.\<close>

definition train_dl :: "('p, 'b, 'o, 'f) collab \<Rightarrow> int \<Rightarrow> nat \<Rightarrow> 'b list" where
  "train_dl c len_train_dl k = map (batch_at c k) [0..<nat len_train_dl]"

text \<open>The body of \<^verbatim>\<open>for epoch in range(epochs)\<close>.\<close>

definition epoch_body ::
  "('p, 'b, 'o, 'f) collab \<Rightarrow> config \<Rightarrow> int \<Rightarrow> int \<Rightarrow> int \<Rightarrow> nat \<Rightarrow> ('p, 'f) state
     \<Rightarrow> py_error + ('p, 'f) state" where
  "epoch_body c cfg len_train_dl warmup_steps total_steps epoch s =
     (let s0 = emit [Print (EpochLine (int epoch + 1) (epochs cfg))] s
      in py_bind (train_one_epoch c warmup_steps total_steps (model s0)
                    (train_dl c len_train_dl epoch) s0) (\<lambda>(s1, train_metrics).
         let val_metrics = evaluate c (store s1 (model s1)) Val;
             s2 = emit [Evaluate Val (model s1) (store s1 (model s1))] s1
         in py_bind (metrics_get train_metrics ''loss'') (\<lambda>train_loss.
            py_bind (metrics_get train_metrics ''accuracy'') (\<lambda>train_accuracy.
            py_bind (metrics_get val_metrics ''loss'') (\<lambda>val_loss.
            py_bind (metrics_get val_metrics ''accuracy'') (\<lambda>val_accuracy.
            let s3 = emit [Print (TrainLine train_loss train_accuracy),
                           Print (ValLine val_loss val_accuracy)] s2
            in py_bind (manage_best_model_and_metrics (model s3) (evaluation_metric cfg)
                          val_metrics (best_val_metric s3) (best_model s3)
                          (best_metric_lower_is_better cfg)) (\<lambda>((bv, bm), out).
                 Inr (emit (map Print out @ [Print BlankLine])
                        (s3\<lparr>best_val_metric := bv, best_model := bm\<rparr>)))))))))"

fun epoch_loop ::
  "('p, 'b, 'o, 'f) collab \<Rightarrow> config \<Rightarrow> int \<Rightarrow> int \<Rightarrow> int \<Rightarrow> nat list \<Rightarrow> ('p, 'f) state
     \<Rightarrow> py_error + ('p, 'f) state" where
  "epoch_loop c cfg len_train_dl warmup_steps total_steps [] s = Inr s"
| "epoch_loop c cfg len_train_dl warmup_steps total_steps (epoch # rest) s =
     py_bind (epoch_body c cfg len_train_dl warmup_steps total_steps epoch s)
       (epoch_loop c cfg len_train_dl warmup_steps total_steps rest)"

text \<open>
  The state when the epoch loop starts: the one module created, at address 0, held by
  both \<open>model\<close> and \<open>best_model\<close>; the scheduler constructed, which evaluates
  \<open>lr_lambda\<close> at step 0; the best metric at the infinity every value beats.
\<close>

definition initial_state ::
  "('p, 'b, 'o, 'f) collab \<Rightarrow> config \<Rightarrow> float64 \<Rightarrow> 'p event list \<Rightarrow> 'f
     \<Rightarrow> ('p, 'f) state" where
  "initial_state c cfg f0 banner fs =
     \<lparr> store = (\<lambda>_. new_model c), model = 0, best_model = 0,
       best_val_metric = (if best_metric_lower_is_better cfg then PInf else NInf),
       last_epoch = 0, lr_factor = f0, trace = banner, fsys = fs \<rparr>"

text \<open>What follows the epoch loop: the evaluation on the test set and the checkpoint.\<close>

definition finish :: "('p, 'b, 'o, 'f) collab \<Rightarrow> config \<Rightarrow> ('p, 'f) state \<Rightarrow> py_error + ('p, 'f) state" where
  "finish c cfg s =
     (let test_metrics = evaluate c (store s (best_model s)) Test;
          s1 = emit [Evaluate Test (best_model s) (store s (best_model s)),
                     Print (TestLines test_metrics)] s
      in py_bind (os_makedirs c (checkpoint_dir cfg) s1) (\<lambda>s2.
         py_bind (torch_save c (store s2 (best_model s2))
                    (checkpoint_dir cfg @ ''/'' @ model_name cfg @ ''.pt'') s2) (\<lambda>s3.
         Inr (emit [Print ModelSavedLine] s3))))"

text \<open>
  The script, run on the file system \<open>fs\<close>. The three subsets are unpacked from the list
  \<open>random_split\<close> returns, and the sizes printed are their lengths. The loaders of the
  test and validation subsets are built after the training loader, with the same batch
  size and without shuffling: they raise nothing the training loader has not raised.
  Constructing the \<open>LambdaLR\<close> evaluates \<open>lr_lambda\<close> at step 0.
\<close>

definition main ::
  "('p, 'b, 'o, 'f) collab \<Rightarrow> config \<Rightarrow> 'f \<Rightarrow> py_error + ('p, 'f) state" where
  "main c cfg fs =
     py_bind (split_sizes (train_ratio cfg) (test_val_ratio cfg) (dataset_size c))
       (\<lambda>(train_size, test_size, val_size).
     py_bind (random_split (dataset_size c) [train_size, test_size, val_size]) (\<lambda>subsets.
     case subsets of
       [train_dataset, test_dataset, val_dataset] \<Rightarrow>
         py_bind (dataloader_len train_dataset (batch_size cfg) True) (\<lambda>len_train_dl.
         let total_steps = len_train_dl * epochs cfg
         in py_bind (compute_warmup_steps total_steps (warmup_ratio cfg)) (\<lambda>warmup_steps.
            py_bind (lr_warmup_linear_decay warmup_steps total_steps 0) (\<lambda>f0.
            let banner = [Print DeviceLine, Print (TrainSizeLine train_dataset),
                          Print (ValidationSizeLine val_dataset),
                          Print (TestSizeLine test_dataset), Print BlankLine];
                s0 = initial_state c cfg f0 banner fs
            in py_bind (epoch_loop c cfg len_train_dl warmup_steps total_steps
                          [0..<nat (epochs cfg)] s0)
                 (finish c cfg))))
     | _ \<Rightarrow> Inl ValueError))"

subsection \<open>Reading a trace\<close>

fun is_scheduler_step :: "'p event \<Rightarrow> bool" where
  "is_scheduler_step (SchedulerStep _) = True"
| "is_scheduler_step _ = False"

fun is_new_best :: "'p event \<Rightarrow> bool" where
  "is_new_best (Print (NewBestLine _ _)) = True"
| "is_new_best _ = False"

text \<open>The evaluations on the test set: the object evaluated and its parameters then.\<close>

fun test_evaluations :: "'p event list \<Rightarrow> (nat \<times> 'p) list" where
  "test_evaluations [] = []"
| "test_evaluations (Evaluate Test a p # es) = (a, p) # test_evaluations es"
| "test_evaluations (_ # es) = test_evaluations es"

text \<open>The checkpoints written: the path and the parameters saved.\<close>

fun checkpoints :: "'p event list \<Rightarrow> (string \<times> 'p) list" where
  "checkpoints [] = []"
| "checkpoints (TorchSave path p # es) = (path, p) # checkpoints es"
| "checkpoints (_ # es) = checkpoints es"

definition count_events :: "('p event \<Rightarrow> bool) \<Rightarrow> ('p, 'f) state \<Rightarrow> nat" where
  "count_events P s = length (filter P (trace s))"

subsection \<open>A small run\<close>

text \<open>
  Collaborators small enough to run the script on: the parameters of the module are the
  number of optimizer steps taken so far, and the loss of a model on any partition is
  that number, so that every further step makes the model worse. Ten samples, half of
  them for training, in one batch per epoch. Its file system is a set of directories and
  a map from paths to the parameters saved there, keyed by the path as written:
  \<open>makedirs\<close> refuses a path that is a file and \<open>save\<close> replaces what the path held.
\<close>

record 'p simple_fs =
  dirs :: "string set"
  files :: "string \<rightharpoonup> 'p"

definition empty_fs :: "'p simple_fs" where
  "empty_fs = \<lparr> dirs = {}, files = Map.empty \<rparr>"

definition toy_collab :: "(nat, nat, unit, nat simple_fs) collab" where
  "toy_collab =
     \<lparr> dataset_size = 10, new_model = 0, batch_at = (\<lambda>k i. i),
       train_batch = (\<lambda>p f b. (Suc p, ())),
       compute_metrics = (\<lambda>obs n. [''loss'' \<mapsto> Finite 0, ''accuracy'' \<mapsto> Finite 1]),
       evaluate = (\<lambda>p part. [''loss'' \<mapsto> Finite (of_nat p), ''accuracy'' \<mapsto> Finite 0]),
       makedirs = (\<lambda>d f. if d \<in> dom (files f) then Inl FileExistsError
                          else Inr (f\<lparr>dirs := insert d (dirs f)\<rparr>)),
       save = (\<lambda>p path f. Inr (f\<lparr>files := (files f)(path \<mapsto> p)\<rparr>)) \<rparr>"

definition toy_config :: config where
  "toy_config =
     \<lparr> train_ratio = Finite (1 / 2), test_val_ratio = Finite (1 / 2), batch_size = 5,
       epochs = 2, warmup_ratio = Finite 0, evaluation_metric = ''loss'',
       best_metric_lower_is_better = True, checkpoint_dir = ''ckpt'', model_name = ''m'' \<rparr>"

section \<open>Properties of the rounding\<close>


lemma pow2_powi: "pow2 e = 2 powi e"
  by (simp add: pow2_def power_int_def inverse_eq_divide power_one_over)

lemma pow2_pos: "0 < pow2 e"
  by (simp add: pow2_powi)

lemma pow2_mono: "a \<le> b \<Longrightarrow> pow2 a \<le> pow2 b"
  by (simp add: pow2_powi power_int_increasing)

lemma pow2_less_imp: "pow2 a \<le> x \<Longrightarrow> x < pow2 b \<Longrightarrow> a < b"
  using pow2_mono [of b a] by (cases "a < b") auto

lemma pow2_add: "pow2 (a + b) = pow2 a * pow2 b"
  by (simp add: pow2_powi power_int_add)

lemma pow2_nat: "0 \<le> e \<Longrightarrow> pow2 e = of_int (2 ^ nat e)"
  by (simp add: pow2_def)

lemma round_half_even_bounds: "\<bar>of_int (round_half_even q) - q\<bar> \<le> 1 / 2"
proof -
  have "of_int \<lfloor>q\<rfloor> \<le> q" "q < of_int \<lfloor>q\<rfloor> + 1" by linarith+
  then show ?thesis
    unfolding round_half_even_def Let_def by (simp add: abs_le_iff)
qed

lemma round_half_even_of_int: "round_half_even (of_int m) = m"
  by (simp add: round_half_even_def)

lemma round_half_even_nonneg: "0 \<le> q \<Longrightarrow> 0 \<le> round_half_even q"
  unfolding round_half_even_def Let_def by auto

lemma round_half_even_le: "q \<le> of_int K \<Longrightarrow> round_half_even q \<le> K"
proof -
  assume q: "q \<le> of_int K"
  have f: "of_int \<lfloor>q\<rfloor> \<le> q" "q < of_int \<lfloor>q\<rfloor> + 1" by linarith+
  have "\<lfloor>q\<rfloor> \<le> K" using q by (simp add: floor_le_iff)
  moreover have "\<lfloor>q\<rfloor> = K \<Longrightarrow> q = of_int K" using q f by linarith
  ultimately show ?thesis
    unfolding round_half_even_def Let_def by (cases "\<lfloor>q\<rfloor> = K") auto
qed

lemma round_half_even_nonpos: "q \<le> 0 \<Longrightarrow> round_half_even q \<le> 0"
  using round_half_even_le [of q 0] by simp

lemma exponent_le0: "0 < x \<Longrightarrow> x \<le> 1 \<Longrightarrow> exponent x \<le> 0"
  by (auto simp: exponent_def bitlen_nonneg bitlen_le_iff_power)

lemma exponent_lower: "0 < x \<Longrightarrow> pow2 (exponent x) \<le> x"
proof (cases "1 \<le> x")
  case True
  then have m: "0 < \<lfloor>x\<rfloor>" by linarith
  from bitlen_bounds [OF m] have "(2::int) ^ nat (bitlen \<lfloor>x\<rfloor> - 1) \<le> \<lfloor>x\<rfloor>" by simp
  then have "(of_int (2 ^ nat (bitlen \<lfloor>x\<rfloor> - 1)) :: rat) \<le> of_int \<lfloor>x\<rfloor>"
    by (simp only: of_int_le_iff)
  also have "\<dots> \<le> x" by simp
  finally have "(of_int (2 ^ nat (bitlen \<lfloor>x\<rfloor> - 1)) :: rat) \<le> x" .
  moreover have "0 \<le> bitlen \<lfloor>x\<rfloor> - 1" using m bitlen_eq_zero_iff [of "\<lfloor>x\<rfloor>"] bitlen_nonneg [of "\<lfloor>x\<rfloor>"] by linarith
  ultimately show ?thesis using True by (simp add: exponent_def pow2_nat)
next
  case False
  assume x: "0 < x"
  let ?k = "\<lceil>1 / x\<rceil> - 1"
  from False x have "1 < 1 / x" by (simp add: field_simps)
  then have k: "0 < ?k" by linarith
  from bitlen_bounds [OF k] have "?k < 2 ^ nat (bitlen ?k)" by simp
  then have "\<lceil>1 / x\<rceil> \<le> 2 ^ nat (bitlen ?k)" by linarith
  then have "(of_int \<lceil>1 / x\<rceil> :: rat) \<le> of_int (2 ^ nat (bitlen ?k))" by (simp only: of_int_le_iff)
  moreover have "1 / x \<le> of_int \<lceil>1 / x\<rceil>" by simp
  moreover have "(of_int (2 ^ nat (bitlen ?k)) :: rat) = 2 ^ nat (bitlen ?k)" by simp
  ultimately have "1 / x \<le> 2 ^ nat (bitlen ?k)" by linarith
  then have "1 / 2 ^ nat (bitlen ?k) \<le> x" using x by (simp add: field_simps)
  moreover have "pow2 (- bitlen ?k) = 1 / 2 ^ nat (bitlen ?k)"
    using bitlen_nonneg [of ?k] k bitlen_eq_zero_iff [of ?k] by (simp add: pow2_def)
  ultimately show ?thesis using False by (simp add: exponent_def)
qed



lemma exponent_upper: "0 < x \<Longrightarrow> x < pow2 (exponent x + 1)"
proof (cases "1 \<le> x")
  case True
  then have m: "0 < \<lfloor>x\<rfloor>" by linarith
  then have b: "1 \<le> bitlen \<lfloor>x\<rfloor>"
    using bitlen_eq_zero_iff [of "\<lfloor>x\<rfloor>"] bitlen_nonneg [of "\<lfloor>x\<rfloor>"] by linarith
  from bitlen_bounds [OF m] have "\<lfloor>x\<rfloor> + 1 \<le> 2 ^ nat (bitlen \<lfloor>x\<rfloor>)" by simp
  then have "(of_int (\<lfloor>x\<rfloor> + 1) :: rat) \<le> of_int (2 ^ nat (bitlen \<lfloor>x\<rfloor>))"
    by (simp only: of_int_le_iff)
  moreover have "x < of_int (\<lfloor>x\<rfloor> + 1)" by linarith
  ultimately have "x < of_int (2 ^ nat (bitlen \<lfloor>x\<rfloor>))" by linarith
  then show ?thesis using True b by (simp add: exponent_def pow2_nat)
next
  case False
  assume x: "0 < x"
  let ?k = "\<lceil>1 / x\<rceil> - 1"
  from False x have "1 < 1 / x" by (simp add: field_simps)
  then have k: "0 < ?k" by linarith
  then have b: "1 \<le> bitlen ?k"
    using bitlen_eq_zero_iff [of ?k] bitlen_nonneg [of ?k] by linarith
  define j where "j = nat (bitlen ?k - 1)"
  from bitlen_bounds [OF k] have "2 ^ j \<le> ?k" by (simp add: j_def)
  then have "(of_int (2 ^ j) :: rat) \<le> of_int ?k" by (simp only: of_int_le_iff)
  moreover have "(of_int ?k :: rat) < 1 / x" by linarith
  moreover have "(of_int (2 ^ j) :: rat) = 2 ^ j" by simp
  ultimately have "2 ^ j < 1 / x" by linarith
  then have "x < 1 / 2 ^ j" using x by (simp add: field_simps)
  moreover have "pow2 (- bitlen ?k + 1) = 1 / 2 ^ j"
  proof (cases "bitlen ?k = 1")
    case True
    then show ?thesis by (simp add: pow2_def j_def)
  next
    case False
    with b have "1 < bitlen ?k" by simp
    then show ?thesis by (simp add: pow2_def j_def nat_diff_distrib)
  qed
  ultimately show ?thesis using False by (simp add: exponent_def)
qed

lemma ulp_pos: "0 < ulp x"
  by (simp add: ulp_def pow2_pos)

lemma ulp_le: "x \<noteq> 0 \<Longrightarrow> ulp x \<le> max \<bar>x\<bar> 1"
proof -
  assume x: "x \<noteq> 0"
  show ?thesis
  proof (cases "- 1022 \<le> exponent \<bar>x\<bar>")
    case True
    then have "ulp x = pow2 (exponent \<bar>x\<bar> - 52)" by (simp add: ulp_def max_def)
    also have "\<dots> \<le> pow2 (exponent \<bar>x\<bar>)" by (rule pow2_mono) simp
    also have "\<dots> \<le> \<bar>x\<bar>" using x by (simp add: exponent_lower)
    finally show ?thesis by simp
  next
    case False
    then have "ulp x = pow2 (- 1074)" by (simp add: ulp_def max_def)
    also have "\<dots> \<le> pow2 0" by (rule pow2_mono) simp
    finally show ?thesis by (simp add: pow2_def)
  qed
qed

lemma round_float64_finite:
  assumes "x \<noteq> 0" and "\<bar>x\<bar> < pow2 1023"
  shows "round_float64 x = Finite (of_int (round_half_even (x / ulp x)) * ulp x)"
proof -
  have "0 < \<bar>x\<bar>" using assms(1) by simp
  then have "pow2 (exponent \<bar>x\<bar>) \<le> \<bar>x\<bar>" by (rule exponent_lower)
  then have "exponent \<bar>x\<bar> < 1023" using assms(2) by (rule pow2_less_imp)
  then have "max (exponent \<bar>x\<bar>) (- 1022) < 1023" by simp
  then have "\<not> (1024 \<le> max (exponent \<bar>x\<bar>) (- 1022) \<or>
      (max (exponent \<bar>x\<bar>) (- 1022) = 1023 \<and>
       2 ^ 53 \<le> \<bar>round_half_even (x / pow2 (max (exponent \<bar>x\<bar>) (- 1022) - 52))\<bar>))"
    by linarith
  then show ?thesis
    unfolding round_float64_def ulp_def Let_def using assms(1) by (simp only: if_False)
qed

lemma round_error: "\<bar>of_int (round_half_even (x / ulp x)) * ulp x - x\<bar> \<le> ulp x / 2"
proof -
  let ?u = "ulp x"
  have u: "0 < ?u" by (rule ulp_pos)
  have "\<bar>of_int (round_half_even (x / ?u)) - x / ?u\<bar> * ?u \<le> (1 / 2) * ?u"
    using round_half_even_bounds [of "x / ?u"] u by (simp only: mult_le_cancel_right_pos)
  moreover have "\<bar>of_int (round_half_even (x / ?u)) - x / ?u\<bar> * ?u
      = \<bar>of_int (round_half_even (x / ?u)) * ?u - x\<bar>"
    using u by (simp add: abs_mult_pos left_diff_distrib)
  ultimately show ?thesis by simp
qed

lemma round_float64_bound:
  assumes "\<bar>x\<bar> < pow2 1023" and "round_float64 x = Finite r"
  shows "\<bar>r\<bar> \<le> 2 * \<bar>x\<bar> + 1"
proof (cases "x = 0")
  case True
  with assms show ?thesis by (simp add: round_float64_def)
next
  case False
  with assms have "r = of_int (round_half_even (x / ulp x)) * ulp x"
    by (simp add: round_float64_finite)
  with round_error [of x] have "\<bar>r - x\<bar> \<le> ulp x / 2" by simp
  moreover have "ulp x \<le> max \<bar>x\<bar> 1" using False by (rule ulp_le)
  moreover have "max \<bar>x\<bar> 1 \<le> \<bar>x\<bar> + 1" by simp
  ultimately have "\<bar>r - x\<bar> \<le> \<bar>x\<bar> + 1" using ulp_pos [of x] by linarith
  moreover have "\<bar>r\<bar> \<le> \<bar>x\<bar> + \<bar>r - x\<bar>" by simp
  ultimately show ?thesis by linarith
qed

lemma round_float64_total: "\<bar>x\<bar> < pow2 1023 \<Longrightarrow> \<exists>r. round_float64 x = Finite r"
proof (cases "x = 0")
  case True
  then show ?thesis by (simp add: round_float64_def)
next
  case False
  assume "\<bar>x\<bar> < pow2 1023"
  with False show ?thesis by (simp add: round_float64_finite)
qed

lemma round_float64_nonneg: "0 \<le> x \<Longrightarrow> round_float64 x = Finite r \<Longrightarrow> 0 \<le> r"
  by (auto simp: round_float64_def Let_def pow2_pos less_imp_le round_half_even_nonneg
      split: if_splits)

lemma round_float64_nonpos: "x \<le> 0 \<Longrightarrow> round_float64 x = Finite r \<Longrightarrow> r \<le> 0"
  by (auto simp: round_float64_def Let_def pow2_pos less_imp_le round_half_even_nonpos
      mult_le_0_iff divide_le_0_iff split: if_splits)

lemma round_float64_not_NInf: "0 \<le> x \<Longrightarrow> round_float64 x \<noteq> NInf"
  by (auto simp: round_float64_def Let_def)

lemma round_float64_not_PInf: "x \<le> 0 \<Longrightarrow> round_float64 x \<noteq> PInf"
  by (auto simp: round_float64_def Let_def)

lemma round_float64_small: "\<bar>x\<bar> \<le> 1 \<Longrightarrow> \<exists>r. round_float64 x = Finite r"
proof (rule round_float64_total)
  assume "\<bar>x\<bar> \<le> 1"
  moreover have "pow2 0 < pow2 1023" by (simp add: pow2_powi power_int_strict_increasing)
  ultimately show "\<bar>x\<bar> < pow2 1023" by (simp add: pow2_def[of 0])
qed

lemma round_float64_of_int:
  assumes "0 < n" and "n < 2 ^ 53"
  shows "round_float64 (of_int n) = Finite (of_int n)"
proof -
  let ?e = "bitlen n - 1"
  have b1: "1 \<le> bitlen n" using assms(1) bitlen_eq_zero_iff [of n] bitlen_nonneg [of n] by linarith
  have b2: "bitlen n \<le> 53" using assms(2) by (simp add: bitlen_le_iff_power)
  have e: "exponent \<bar>of_int n\<bar> = ?e" using assms(1) by (simp add: exponent_def)
  define k where "k = nat (52 - ?e)"
  have u: "pow2 (?e - 52) = 1 / 2 ^ k" 
    using b1 b2 by (auto simp: pow2_def k_def)
  have "of_int n / pow2 (?e - 52) = (of_int n * 2 ^ k :: rat)"
    by (simp only: u) simp
  then have "of_int n / pow2 (?e - 52) = (of_int (n * 2 ^ k) :: rat)"
    by simp
  then have "round_half_even (of_int n / pow2 (?e - 52)) = n * 2 ^ k"
    by (simp only: round_half_even_of_int)
  moreover have "max ?e (- 1022) = ?e" using b1 by simp
  moreover have u': "pow2 (bitlen n - 53) = 1 / 2 ^ k" using u by simp
  ultimately show ?thesis
    using assms(1) b1 b2 unfolding round_float64_def Let_def e by (simp add: u')
qed

lemma round_float64_le_one:
  assumes "x \<le> 1" and "round_float64 x = Finite r"
  shows "r \<le> 1"
proof (cases "x \<le> 0")
  case True
  then have "r \<le> 0" using assms(2) by (rule round_float64_nonpos)
  then show ?thesis by simp
next
  case False
  then have x: "0 < x" "x \<noteq> 0" "\<bar>x\<bar> = x" by simp_all
  define e where "e = max (exponent x) (- 1022)"
  have e: "e \<le> 0" using exponent_le0 [of x] x assms(1) by (simp add: e_def)
  define k where "k = nat (52 - e)"
  have u: "pow2 (e - 52) = 1 / 2 ^ k" using e by (simp add: pow2_def k_def)
  have r: "r = of_int (round_half_even (x / pow2 (e - 52))) * pow2 (e - 52)"
    using assms(2) e x unfolding round_float64_def Let_def e_def [symmetric] x(3)
    by (simp split: if_splits)
  have "x / pow2 (e - 52) \<le> of_int (2 ^ k)" using assms(1) by (simp only: u) simp
  then have "round_half_even (x / pow2 (e - 52)) \<le> 2 ^ k" by (rule round_half_even_le)
  then have "(of_int (round_half_even (x / pow2 (e - 52))) :: rat) \<le> of_int (2 ^ k)"
    by (simp only: of_int_le_iff)
  then have "of_int (round_half_even (x / pow2 (e - 52))) * pow2 (e - 52) \<le> 1"
    by (simp only: u) (simp add: field_simps)
  with r show ?thesis by simp
qed

lemma int_truediv_unit:
  assumes "b \<noteq> 0" and "\<bar>a\<bar> \<le> \<bar>b\<bar>"
  shows "\<exists>r. int_truediv a b = Inr (Finite r) \<and> round_float64 (of_int a / of_int b) = Finite r"
proof -
  have "\<bar>(of_int a :: rat) / of_int b\<bar> \<le> 1"
    using assms by (simp add: abs_divide)
  then obtain r where "round_float64 (of_int a / of_int b) = Finite r"
    using round_float64_small by blast
  then show ?thesis using assms(1) by (simp add: int_truediv_def)
qed

lemma float_max_zero: "float_max (Finite 0) (Finite r) = Finite (max 0 r)"
  by (simp add: float_max_def float_gt_def max_def)

lemma int_truediv_zero: "b \<noteq> 0 \<Longrightarrow> int_truediv 0 b = Inr (Finite 0)"
  by (simp add: int_truediv_def round_float64_def)

lemma round_float64_one: "round_float64 1 = Finite 1"
  by code_simp

lemma int_truediv_self: "b \<noteq> 0 \<Longrightarrow> int_truediv b b = Inr (Finite 1)"
  by (simp add: int_truediv_def round_float64_one)

lemma lr_in_unit_interval:
  assumes "warmup_steps \<noteq> total_steps" and "0 \<le> s" and "s \<le> total_steps"
  shows "\<exists>r. lr_warmup_linear_decay warmup_steps total_steps s = Inr (Finite r) \<and> 0 \<le> r \<and> r \<le> 1"
proof (cases "s < warmup_steps")
  case True
  then have b: "warmup_steps \<noteq> 0" "\<bar>s\<bar> \<le> \<bar>warmup_steps\<bar>" using assms(2) by simp_all
  from int_truediv_unit [OF b] obtain r where
    r: "int_truediv s warmup_steps = Inr (Finite r)"
       "round_float64 (of_int s / of_int warmup_steps) = Finite r" by blast
  have q: "0 \<le> (of_int s :: rat) / of_int warmup_steps" "(of_int s :: rat) / of_int warmup_steps \<le> 1"
    using True assms(2) by simp_all
  show ?thesis
    using True r(1) round_float64_nonneg [OF q(1) r(2)] round_float64_le_one [OF q(2) r(2)]
    by (simp add: lr_warmup_linear_decay_def)
next
  case False
  then have b: "total_steps - warmup_steps \<noteq> 0" "\<bar>total_steps - s\<bar> \<le> \<bar>total_steps - warmup_steps\<bar>"
    using assms by simp_all
  from int_truediv_unit [OF b] obtain r where
    r: "int_truediv (total_steps - s) (total_steps - warmup_steps) = Inr (Finite r)"
       "round_float64 (of_int (total_steps - s) / of_int (total_steps - warmup_steps)) = Finite r"
    by blast
  have q: "0 \<le> (of_int (total_steps - s) :: rat) / of_int (total_steps - warmup_steps)"
     "(of_int (total_steps - s) :: rat) / of_int (total_steps - warmup_steps) \<le> 1"
    using False assms by (simp_all add: divide_le_eq)
  show ?thesis
    using False r(1) round_float64_nonneg [OF q(1) r(2)] round_float64_le_one [OF q(2) r(2)]
    by (simp add: lr_warmup_linear_decay_def py_bind_def float_max_zero)
qed

lemma lr_without_warmup:
  assumes "0 \<le> step" and "step \<le> total_steps" and "total_steps \<noteq> 0"
  shows "\<exists>r. lr_warmup_linear_decay 0 total_steps step = Inr (Finite r) \<and> 0 \<le> r \<and> r \<le> 1"
  using lr_in_unit_interval [of 0 total_steps step] assms by simp

text \<open>The rounding on known values: \<open>0.1\<close>, \<open>0.7\<close>, \<open>0.7 * 100\<close>, \<open>0.57 * 100\<close>, \<open>1 / 3\<close>.\<close>

lemma round_float64_examples:
  "round_float64 (1 / 10) = Finite (3602879701896397 / 36028797018963968)"
  "round_float64 (7 / 10) = Finite (3152519739159347 / 4503599627370496)"
  "float_mul_int (round_float64 (7 / 10)) 100 = Inr (Finite 70)"
  "float_mul_int (round_float64 (57 / 100)) 100
     = Inr (Finite (8022036836253695 / 140737488355328))"
  "int_truediv 1 3 = Inr (Finite (6004799503160661 / 18014398509481984))"
  by code_simp+

section \<open>The model selector: ties\<close>

text \<open>
  Claim C1. With the metric present in the validation metrics, the candidate wins exactly
  when \<open>metric <= best_val_metric\<close> if lower is better, and exactly when
  \<open>metric > best_val_metric\<close> otherwise; on a win the call returns the metric and the
  model passed in (and prints the new best), on a non-win its inputs. So when the
  candidate ties with the best, it is selected if lower is better, and not selected
  otherwise.
\<close>

theorem manage_best_model_tie_breaking:
  assumes "vm name = Some metric"
  shows "manage_best_model_and_metrics mdl name vm best
           bm True
         = (if float_le metric best
            then Inr ((metric, mdl), [NewBestLine name metric])
            else Inr ((best, bm), []))
       \<and> manage_best_model_and_metrics mdl name vm best
           bm False
         = (if float_gt metric best
            then Inr ((metric, mdl), [NewBestLine name metric])
            else Inr ((best, bm), []))
       \<and> (metric \<noteq> NaN \<longrightarrow>
            manage_best_model_and_metrics mdl name vm metric
              bm True
            = Inr ((metric, mdl), [NewBestLine name metric]))
       \<and> manage_best_model_and_metrics mdl name vm metric
              bm False
            = Inr ((metric, bm), [])"
proof -
  have le: "metric \<noteq> NaN \<Longrightarrow> float_le metric metric" by (cases metric) simp_all
  have gt: "\<not> float_gt metric metric" by (cases metric) (simp_all add: float_gt_def)
  show ?thesis
    using assms le gt
    by (simp add: manage_best_model_and_metrics_def metrics_get_def py_bind_def)
qed

theorem manage_best_model_tie_breaking_witness:
  "manage_best_model_and_metrics (1::nat) ''loss'' [''loss'' \<mapsto> Finite 1] (Finite 1) 0 True
     = Inr ((Finite 1, 1), [NewBestLine ''loss'' (Finite 1)])
   \<and> manage_best_model_and_metrics (1::nat) ''loss'' [''loss'' \<mapsto> Finite 1] (Finite 1) 0 False
     = Inr ((Finite 1, 0), [])"
  using manage_best_model_tie_breaking
    [of "[''loss'' \<mapsto> Finite 1]" "''loss''" "Finite 1" "1::nat" "Finite 1" 0]
  by (simp add: float_gt_def)

section \<open>The learning-rate schedule: its shape\<close>

lemma int_truediv_negative:
  assumes "a < 0" and "0 < b"
  shows "(\<exists>r. int_truediv a b = Inr (Finite r) \<and> r \<le> 0) \<or> int_truediv a b = Inl OverflowError"
proof -
  have q: "(of_int a :: rat) / of_int b \<le> 0" using assms by (simp add: divide_le_0_iff)
  show ?thesis
  proof (cases "round_float64 (of_int a / of_int b)")
    case (Finite r)
    then have "r \<le> 0" using q round_float64_nonpos by blast
    with Finite show ?thesis using assms(2) by (simp add: int_truediv_def)
  next
    case PInf
    then show ?thesis using q round_float64_not_PInf by blast
  next
    case NInf
    then show ?thesis using assms(2) by (simp add: int_truediv_def)
  next
    case NaN
    then show ?thesis using assms(2) by (simp add: int_truediv_def)
  qed
qed

lemma int_truediv_bounded:
  assumes "b \<noteq> 0" and "\<bar>a\<bar> < 2 ^ 1023"
  shows "\<exists>r. int_truediv a b = Inr (Finite r)"
proof -
  have "\<bar>(of_int a :: rat) / of_int b\<bar> \<le> \<bar>of_int a\<bar>"
  proof -
    have "1 \<le> \<bar>b\<bar>" using assms(1) by simp
    then have "(1::rat) \<le> \<bar>of_int b\<bar>" by (metis of_int_abs of_int_1_le_iff)
    then have "\<bar>(of_int a :: rat)\<bar> / \<bar>of_int b\<bar> \<le> \<bar>of_int a\<bar> / 1"
      by (intro divide_left_mono) simp_all
    then show ?thesis by (simp add: abs_divide)
  qed
  also have "\<bar>(of_int a :: rat)\<bar> = of_int \<bar>a\<bar>" by simp
  also have "(of_int \<bar>a\<bar> :: rat) < of_int (2 ^ 1023)" using assms(2) by (simp only: of_int_less_iff)
  also have "(of_int (2 ^ 1023) :: rat) = pow2 1023" by (simp add: pow2_def)
  finally obtain r where "round_float64 (of_int a / of_int b) = Finite r"
    using round_float64_total by blast
  then show ?thesis using assms(1) by (simp add: int_truediv_def)
qed

text \<open>
  Claim C2. With \<open>0 < warmup_steps < total_steps\<close> the multiplier is 0 at step 0, is
  \<open>s / warmup_steps\<close> below \<open>warmup_steps\<close>, is 1 at \<open>warmup_steps\<close>, is
  \<open>(total_steps - s) / (total_steps - warmup_steps)\<close> from there to \<open>total_steps\<close>, where
  it is 0, and stays in \<open>[0, 1]\<close> on all of \<open>0 \<dots> total_steps\<close>. Beyond \<open>total_steps\<close> it
  is never negative: it is 0, unless the quotient is too large for a float and the division
  raises, which needs a step more than \<open>2 ^ 1023\<close> beyond \<open>total_steps\<close>. The divisions are
  those of Python: the quotient rounded to the nearest float.
\<close>

theorem lr_warmup_linear_decay_shape:
  assumes "0 < warmup_steps" and "warmup_steps < total_steps"
  shows "lr_warmup_linear_decay warmup_steps total_steps 0 = Inr (Finite 0)
       \<and> (s < warmup_steps \<longrightarrow>
            lr_warmup_linear_decay warmup_steps total_steps s = int_truediv s warmup_steps)
       \<and> lr_warmup_linear_decay warmup_steps total_steps warmup_steps = Inr (Finite 1)
       \<and> (warmup_steps \<le> s \<and> s \<le> total_steps \<longrightarrow>
            lr_warmup_linear_decay warmup_steps total_steps s
              = int_truediv (total_steps - s) (total_steps - warmup_steps))
       \<and> (0 \<le> s \<and> s \<le> total_steps \<longrightarrow>
            (\<exists>r. lr_warmup_linear_decay warmup_steps total_steps s = Inr (Finite r)
                 \<and> 0 \<le> r \<and> r \<le> 1))
       \<and> lr_warmup_linear_decay warmup_steps total_steps total_steps = Inr (Finite 0)
       \<and> (total_steps < s \<longrightarrow>
            lr_warmup_linear_decay warmup_steps total_steps s = Inr (Finite 0)
            \<or> lr_warmup_linear_decay warmup_steps total_steps s = Inl OverflowError)
       \<and> (total_steps < s \<and> s - total_steps < 2 ^ 1023 \<longrightarrow>
            lr_warmup_linear_decay warmup_steps total_steps s = Inr (Finite 0))"
proof -
  have c1: "lr_warmup_linear_decay warmup_steps total_steps 0 = Inr (Finite 0)"
    using assms by (simp add: lr_warmup_linear_decay_def int_truediv_zero)
  have c2: "s < warmup_steps \<longrightarrow>
      lr_warmup_linear_decay warmup_steps total_steps s = int_truediv s warmup_steps"
    by (simp add: lr_warmup_linear_decay_def)
  have c3: "lr_warmup_linear_decay warmup_steps total_steps warmup_steps = Inr (Finite 1)"
    using assms
    by (simp add: lr_warmup_linear_decay_def int_truediv_self py_bind_def float_max_zero)
  have c4: "warmup_steps \<le> s \<and> s \<le> total_steps \<longrightarrow>
      lr_warmup_linear_decay warmup_steps total_steps s
        = int_truediv (total_steps - s) (total_steps - warmup_steps)"
  proof
    assume a: "warmup_steps \<le> s \<and> s \<le> total_steps"
    then have b: "total_steps - warmup_steps \<noteq> 0"
        "\<bar>total_steps - s\<bar> \<le> \<bar>total_steps - warmup_steps\<bar>"
      using assms(2) by simp_all
    from int_truediv_unit [OF b] obtain r where
      r: "int_truediv (total_steps - s) (total_steps - warmup_steps) = Inr (Finite r)"
         "round_float64 (of_int (total_steps - s) / of_int (total_steps - warmup_steps)) = Finite r"
      by blast
    have "0 \<le> (of_int (total_steps - s) :: rat) / of_int (total_steps - warmup_steps)"
      using a assms(2) by simp
    then have "0 \<le> r" using r(2) by (rule round_float64_nonneg)
    with a r(1) show "lr_warmup_linear_decay warmup_steps total_steps s
        = int_truediv (total_steps - s) (total_steps - warmup_steps)"
      by (simp add: lr_warmup_linear_decay_def py_bind_def float_max_zero)
  qed
  have c5: "0 \<le> s \<and> s \<le> total_steps \<longrightarrow>
      (\<exists>r. lr_warmup_linear_decay warmup_steps total_steps s = Inr (Finite r) \<and> 0 \<le> r \<and> r \<le> 1)"
    using lr_in_unit_interval [of warmup_steps total_steps s] assms(2) by simp
  have c6: "lr_warmup_linear_decay warmup_steps total_steps total_steps = Inr (Finite 0)"
    using assms
    by (simp add: lr_warmup_linear_decay_def int_truediv_zero py_bind_def float_max_zero)
  have neg: "total_steps < s \<Longrightarrow> int_truediv (total_steps - s) (total_steps - warmup_steps) = Inr (Finite r)
      \<Longrightarrow> r \<le> 0" for r
    using int_truediv_negative [of "total_steps - s" "total_steps - warmup_steps"] assms(2)
    by auto
  have c7: "total_steps < s \<longrightarrow>
      lr_warmup_linear_decay warmup_steps total_steps s = Inr (Finite 0)
      \<or> lr_warmup_linear_decay warmup_steps total_steps s = Inl OverflowError"
  proof
    assume a: "total_steps < s"
    from int_truediv_negative [of "total_steps - s" "total_steps - warmup_steps"] a assms(2)
    show "lr_warmup_linear_decay warmup_steps total_steps s = Inr (Finite 0)
      \<or> lr_warmup_linear_decay warmup_steps total_steps s = Inl OverflowError"
      by (auto simp: lr_warmup_linear_decay_def py_bind_def float_max_zero max_def)
  qed
  have c8: "total_steps < s \<and> s - total_steps < 2 ^ 1023 \<longrightarrow>
      lr_warmup_linear_decay warmup_steps total_steps s = Inr (Finite 0)"
  proof
    assume a: "total_steps < s \<and> s - total_steps < 2 ^ 1023"
    then have "\<bar>total_steps - s\<bar> < 2 ^ 1023" by simp
    with int_truediv_bounded [of "total_steps - warmup_steps" "total_steps - s"] assms(2)
    obtain r where r: "int_truediv (total_steps - s) (total_steps - warmup_steps) = Inr (Finite r)"
      by auto
    with neg [of r] a have "r \<le> 0" by simp
    with r a assms show "lr_warmup_linear_decay warmup_steps total_steps s = Inr (Finite 0)"
      by (simp add: lr_warmup_linear_decay_def py_bind_def float_max_zero max_def)
  qed
  from c1 c2 c3 c4 c5 c6 c7 c8 show ?thesis by blast
qed

theorem lr_warmup_linear_decay_shape_witness:
  "compute_warmup_steps 100 (round_float64 (1 / 10)) = Inr 10
   \<and> lr_warmup_linear_decay 10 100 0 = Inr (Finite 0)
   \<and> lr_warmup_linear_decay 10 100 5 = Inr (Finite (1 / 2))
   \<and> lr_warmup_linear_decay 10 100 10 = Inr (Finite 1)
   \<and> lr_warmup_linear_decay 10 100 55 = Inr (Finite (1 / 2))
   \<and> lr_warmup_linear_decay 10 100 100 = Inr (Finite 0)
   \<and> lr_warmup_linear_decay 10 100 150 = Inr (Finite 0)"
proof -
  have h: "(0::int) < 10" "(10::int) < 100" by simp_all
  have w: "compute_warmup_steps 100 (round_float64 (1 / 10)) = Inr 10" by code_simp
  have e1: "int_truediv 5 10 = Inr (Finite (1 / 2))" by code_simp
  have e2: "int_truediv 45 90 = Inr (Finite (1 / 2))" by code_simp
  from lr_warmup_linear_decay_shape [OF h, of 5] lr_warmup_linear_decay_shape [OF h, of 55]
    lr_warmup_linear_decay_shape [OF h, of 150] w e1 e2
  show ?thesis by simp
qed

section \<open>The learning-rate schedule: a warmup as long as the run\<close>

lemma float_of_int_exact:
  assumes "0 \<le> n" and "n < 2 ^ 53"
  shows "float_of_int n = Inr (Finite (of_int n))"
proof (cases "n = 0")
  case True
  then show ?thesis by (simp add: float_of_int_def round_float64_def)
next
  case False
  with assms have "0 < n" by simp
  then show ?thesis using assms(2) by (simp add: float_of_int_def round_float64_of_int)
qed

text \<open>
  Claim C9. With \<open>warmup_ratio = 1.0\<close> and a positive number of steps (below \<open>2 ^ 53\<close>,
  so that the conversion to a float is exact), \<open>warmup_steps\<close> is \<open>total_steps\<close>, and
  every step from \<open>warmup_steps\<close> on takes the decay branch, whose denominator
  \<open>total_steps - warmup_steps\<close> is 0: the division raises.
\<close>

theorem decay_branch_zero_division:
  assumes "0 < total_steps" and "total_steps < 2 ^ 53" and "total_steps \<le> s"
  shows "compute_warmup_steps total_steps (Finite 1) = Inr total_steps
       \<and> lr_warmup_linear_decay total_steps total_steps s = Inl ZeroDivisionError"
proof -
  have "float_of_int total_steps = Inr (Finite (of_int total_steps))"
    using assms by (simp add: float_of_int_exact)
  moreover have "round_float64 (of_int total_steps) = Finite (of_int total_steps)"
    using assms by (simp add: round_float64_of_int)
  ultimately have "compute_warmup_steps total_steps (Finite 1) = Inr total_steps"
    using assms(1) by (simp add: compute_warmup_steps_def int_mul_float_def py_bind_def)
  moreover have "lr_warmup_linear_decay total_steps total_steps s = Inl ZeroDivisionError"
    using assms(3) by (simp add: lr_warmup_linear_decay_def int_truediv_def py_bind_def)
  ultimately show ?thesis by simp
qed

theorem decay_branch_zero_division_witness:
  "compute_warmup_steps 100 (Finite 1) = Inr 100
   \<and> lr_warmup_linear_decay 100 100 100 = Inl ZeroDivisionError
   \<and> (case main toy_collab (toy_config\<lparr>warmup_ratio := Finite 1\<rparr>) empty_fs of
         Inl e \<Rightarrow> e = ZeroDivisionError | Inr s \<Rightarrow> False)"
proof -
  have "case main toy_collab (toy_config\<lparr>warmup_ratio := Finite 1\<rparr>) empty_fs of
         Inl e \<Rightarrow> e = ZeroDivisionError | Inr s \<Rightarrow> False"
    by code_simp
  with decay_branch_zero_division [of 100 100] show ?thesis by simp
qed

section \<open>The dataset split: sizes that add up\<close>

lemma split_sizes_Inr:
  assumes "split_sizes tr tv n = Inr (a, b, c)"
  shows "a + b + c = n \<and> c = (n - a) - b"
  using assms
  by (auto simp: split_sizes_def py_bind_def Let_def split: sum.splits)

lemma pow2_1000: "(2::rat) ^ 1000 = pow2 1000"
  by (simp add: pow2_def)

lemma pow2_1023_big: "32 * pow2 1000 \<le> pow2 1023"
proof -
  have "pow2 1005 = pow2 5 * pow2 1000" using pow2_add [of 5 1000] by simp
  moreover have "pow2 5 = 32" by (simp add: pow2_def)
  moreover have "pow2 1005 \<le> pow2 1023" by (rule pow2_mono) simp
  ultimately show ?thesis by simp
qed

lemma float_of_int_bounded:
  assumes "\<bar>of_int n :: rat\<bar> < pow2 1023"
  shows "\<exists>r. float_of_int n = Inr (Finite r) \<and> \<bar>r\<bar> \<le> 2 * \<bar>of_int n\<bar> + 1"
proof -
  from round_float64_total [OF assms] obtain r where r: "round_float64 (of_int n) = Finite r"
    by blast
  with round_float64_bound [OF assms r] show ?thesis by (simp add: float_of_int_def)
qed

lemma float_mul_unit:
  assumes "\<bar>y\<bar> \<le> 1" and "\<bar>x\<bar> < pow2 1023"
  shows "\<exists>r. float_mul (Finite x) (Finite y) = Finite r \<and> \<bar>r\<bar> \<le> 2 * \<bar>x\<bar> + 1"
    and "\<exists>r. float_mul (Finite y) (Finite x) = Finite r \<and> \<bar>r\<bar> \<le> 2 * \<bar>x\<bar> + 1"
proof -
  have le: "\<bar>x * y\<bar> \<le> \<bar>x\<bar>" using assms(1) by (simp add: abs_mult mult_left_le)
  then have lt: "\<bar>x * y\<bar> < pow2 1023" using assms(2) by simp
  from round_float64_total [OF lt] obtain r where r: "round_float64 (x * y) = Finite r" by blast
  from round_float64_bound [OF lt r] le have "\<bar>r\<bar> \<le> 2 * \<bar>x\<bar> + 1" by simp
  with r show "\<exists>r. float_mul (Finite x) (Finite y) = Finite r \<and> \<bar>r\<bar> \<le> 2 * \<bar>x\<bar> + 1" by simp
  with r show "\<exists>r. float_mul (Finite y) (Finite x) = Finite r \<and> \<bar>r\<bar> \<le> 2 * \<bar>x\<bar> + 1"
    by (simp add: mult.commute)
qed

lemma int_of_float_Finite:
  "\<exists>k. int_of_float (Finite r) = Inr k \<and> \<bar>of_int k :: rat\<bar> \<le> \<bar>r\<bar>"
proof (cases "0 \<le> r")
  case True
  then have "0 \<le> \<lfloor>r\<rfloor>" by simp
  then have "\<bar>of_int \<lfloor>r\<rfloor> :: rat\<bar> = of_int \<lfloor>r\<rfloor>" by simp
  also have "\<dots> \<le> r" by simp
  finally show ?thesis using True by simp
next
  case False
  then have "\<lceil>r\<rceil> \<le> 0" by (simp add: ceiling_le_iff)
  then have "\<bar>of_int \<lceil>r\<rceil> :: rat\<bar> = - of_int \<lceil>r\<rceil>" by simp
  also have "\<dots> \<le> - r" by simp
  finally show ?thesis using False by simp
qed

lemma split_sizes_total:
  assumes "\<bar>x\<bar> \<le> 1" and "\<bar>y\<bar> \<le> 1" and "0 \<le> n" and "n < 2 ^ 1000"
  shows "\<exists>a b c. split_sizes (Finite x) (Finite y) n = Inr (a, b, c)"
proof -
  define B :: rat where "B = pow2 1000"
  have big: "32 * B \<le> pow2 1023" unfolding B_def by (rule pow2_1023_big)
  have "(of_int n :: rat) < of_int (2 ^ 1000)" using assms(4) by (simp only: of_int_less_iff)
  then have n: "(of_int n :: rat) < B" "0 \<le> (of_int n :: rat)" "1 \<le> B"
    using assms(3) by (simp_all add: B_def pow2_def)
  have "\<bar>of_int n :: rat\<bar> < pow2 1023" using n big by simp
  from float_of_int_bounded [OF this] obtain f where
    f: "float_of_int n = Inr (Finite f)" "\<bar>f\<bar> \<le> 2 * \<bar>of_int n\<bar> + 1" by blast
  have fb: "\<bar>f\<bar> < pow2 1023" using f(2) n big by simp
  from float_mul_unit(2) [OF assms(1) fb] obtain p where
    p: "float_mul (Finite x) (Finite f) = Finite p" "\<bar>p\<bar> \<le> 2 * \<bar>f\<bar> + 1" by blast
  from int_of_float_Finite [of p] obtain a where
    a: "int_of_float (Finite p) = Inr a" "\<bar>of_int a :: rat\<bar> \<le> \<bar>p\<bar>" by blast
  define D :: rat where "D = \<bar>of_int (n - a)\<bar>"
  have ab: "D \<le> 8 * B"
  proof -
    have "D \<le> \<bar>of_int n\<bar> + \<bar>of_int a\<bar>" by (simp add: D_def)
    moreover have "\<bar>of_int n :: rat\<bar> = of_int n" using n(2) by simp
    ultimately show ?thesis using a(2) p(2) f(2) n by linarith
  qed
  then have "D < pow2 1023" using big n by linarith
  then have "\<bar>of_int (n - a) :: rat\<bar> < pow2 1023" by (simp only: D_def)
  from float_of_int_bounded [OF this] obtain g where
    g: "float_of_int (n - a) = Inr (Finite g)" "\<bar>g\<bar> \<le> 2 * D + 1"
    unfolding D_def by blast
  have gb: "\<bar>g\<bar> < pow2 1023" using g(2) ab n big by linarith
  from float_mul_unit(1) [OF assms(2) gb] obtain q where
    q: "float_mul (Finite g) (Finite y) = Finite q" by blast
  from int_of_float_Finite [of q] obtain b where b: "int_of_float (Finite q) = Inr b" by blast
  show ?thesis
    using f(1) p(1) a(1) g(1) q b
    by (simp add: split_sizes_def py_bind_def float_mul_int_def int_mul_float_def)
qed


text \<open>
  Claim C3. Whatever the ratios and the size \<open>n\<close> of the dataset, the three sizes, once
  computed, add up to \<open>n\<close>, the validation size being what the two truncations leave. They
  are computed for all ratios in \<open>(0, 1)\<close> and every size below \<open>2 ^ 1000\<close> (a size that
  does not fit a float makes the conversion raise). For 100 samples and the ratios \<open>0.7\<close>
  and \<open>0.5\<close>, the floats nearest to 7/10 and 1/2, the sizes are 70, 15 and 15.
\<close>

theorem split_sizes_sum:
  "(split_sizes tr tv n = Inr (a, b, c) \<longrightarrow> a + b + c = n \<and> c = (n - a) - b)
   \<and> (0 < x \<and> x < 1 \<and> 0 < y \<and> y < 1 \<and> 0 \<le> n \<and> n < 2 ^ 1000 \<longrightarrow>
        (\<exists>a b c. split_sizes (Finite x) (Finite y) n = Inr (a, b, c) \<and> a + b + c = n))
   \<and> split_sizes (round_float64 (7 / 10)) (round_float64 (1 / 2)) 100 = Inr (70, 15, 15)"
proof -
  have p1: "split_sizes tr tv n = Inr (a, b, c) \<longrightarrow> a + b + c = n \<and> c = (n - a) - b"
    using split_sizes_Inr by blast
  have p2: "0 < x \<and> x < 1 \<and> 0 < y \<and> y < 1 \<and> 0 \<le> n \<and> n < 2 ^ 1000 \<longrightarrow>
      (\<exists>a b c. split_sizes (Finite x) (Finite y) n = Inr (a, b, c) \<and> a + b + c = n)"
  proof
    assume h: "0 < x \<and> x < 1 \<and> 0 < y \<and> y < 1 \<and> 0 \<le> n \<and> n < 2 ^ 1000"
    then have "\<bar>x\<bar> \<le> 1" "\<bar>y\<bar> \<le> 1" "0 \<le> n" "n < 2 ^ 1000" by simp_all
    from split_sizes_total [OF this] obtain a b c where
      "split_sizes (Finite x) (Finite y) n = Inr (a, b, c)" by blast
    with split_sizes_Inr [OF this]
    show "\<exists>a b c. split_sizes (Finite x) (Finite y) n = Inr (a, b, c) \<and> a + b + c = n"
      by blast
  qed
  have p3: "split_sizes (round_float64 (7 / 10)) (round_float64 (1 / 2)) 100 = Inr (70, 15, 15)"
    by code_simp
  from p1 p2 p3 show ?thesis by blast
qed

theorem split_sizes_sum_witness:
  "split_sizes (round_float64 (7 / 10)) (round_float64 (1 / 2)) 100 = Inr (70, 15, 15)
   \<and> (70::int) + 15 + 15 = 100 \<and> (15::int) = (100 - 70) - 15
   \<and> (\<exists>a b c. split_sizes (Finite (3 / 4)) (Finite (1 / 2)) 100 = Inr (a, b, c)
         \<and> a + b + c = 100)"
  using split_sizes_sum
    [of "round_float64 (7 / 10)" "round_float64 (1 / 2)" 100 70 15 15 "3 / 4" "1 / 2"]
  by simp

section \<open>Comparing floats, and what the selector returns\<close>

lemma float_le_refl: "x \<noteq> NaN \<Longrightarrow> float_le x x"
  by (cases x) simp_all

lemma float_le_trans: "float_le x y \<Longrightarrow> float_le y z \<Longrightarrow> float_le x z"
  by (cases x; cases y; cases z) simp_all

lemma float_le_not_NaN: "float_le x y \<Longrightarrow> x \<noteq> NaN \<and> y \<noteq> NaN"
  by (cases x; cases y) simp_all

lemma float_lt_not_le: "x \<noteq> NaN \<Longrightarrow> y \<noteq> NaN \<Longrightarrow> float_lt y x \<longleftrightarrow> \<not> float_le x y"
  by (cases x; cases y) auto

lemma float_lt_not_NaN: "float_lt x y \<Longrightarrow> x \<noteq> NaN \<and> y \<noteq> NaN"
  by (cases x; cases y) simp_all

lemma float_lt_imp_le: "float_lt x y \<Longrightarrow> float_le x y"
  by (cases x; cases y) simp_all

lemma manage_Inr:
  assumes "manage_best_model_and_metrics mdl name vm best bm lower = Inr ((v, r), out)"
  shows "\<exists>metric. vm name = Some metric \<and>
           ((v, r), out) =
             (if (if lower then float_le metric best else float_gt metric best)
              then ((metric, mdl), [NewBestLine name metric]) else ((best, bm), []))"
  using assms
  by (auto simp: manage_best_model_and_metrics_def metrics_get_def py_bind_def Let_def
      split: option.splits if_splits)

lemma manage_monotone:
  assumes "manage_best_model_and_metrics mdl name vm best bm lower = Inr ((v, r), out)"
    and "best \<noteq> NaN"
  shows "(if lower then float_le v best else float_le best v) \<and> v \<noteq> NaN"
proof -
  from manage_Inr [OF assms(1)] obtain metric where
    m: "((v, r), out) =
             (if (if lower then float_le metric best else float_gt metric best)
              then ((metric, mdl), [NewBestLine name metric]) else ((best, bm), []))"
    by blast
  show ?thesis
  proof (cases "if lower then float_le metric best else float_gt metric best")
    case True
    with m have v: "v = metric" by (auto split: if_splits)
    from True show ?thesis unfolding v
      by (auto simp: float_gt_def float_lt_imp_le dest: float_le_not_NaN float_lt_not_NaN
          split: if_splits)
  next
    case False
    with m have "v = best" by (auto split: if_splits)
    with assms(2) show ?thesis by (simp add: float_le_refl)
  qed
qed


lemma manage_min_max:
  assumes "manage_best_model_and_metrics mdl name vm best bm lower = Inr ((v, r), out)"
    and "vm name = Some metric"
  shows "(metric \<noteq> NaN \<and> best \<noteq> NaN \<longrightarrow>
            v = (if lower then float_min metric best else float_max metric best))
       \<and> (metric = NaN \<longrightarrow> v = best \<and> r = bm \<and> out = [])"
proof -
  have mm: "metric \<noteq> NaN \<Longrightarrow> best \<noteq> NaN \<Longrightarrow>
      (if float_le metric best then metric else best) = float_min metric best"
    by (cases metric; cases best) (auto simp: float_min_def)
  have mx: "metric \<noteq> NaN \<Longrightarrow> best \<noteq> NaN \<Longrightarrow>
      (if float_gt metric best then metric else best) = float_max metric best"
    by (cases metric; cases best) (auto simp: float_max_def float_gt_def)
  from manage_Inr [OF assms(1)] assms(2) have
    m: "((v, r), out) =
             (if (if lower then float_le metric best else float_gt metric best)
              then ((metric, mdl), [NewBestLine name metric]) else ((best, bm), []))"
    by auto
  have n: "metric = NaN \<Longrightarrow> \<not> (if lower then float_le metric best else float_gt metric best)"
    by (auto simp: float_gt_def dest: float_le_not_NaN float_lt_not_NaN)
  show ?thesis
    using m mm mx n by (cases lower) (auto split: if_splits)
qed


section \<open>The run, step by step\<close>

lemma test_evaluations_append:
  "test_evaluations (xs @ ys) = test_evaluations xs @ test_evaluations ys"
  by (induction xs rule: test_evaluations.induct) simp_all

lemma checkpoints_append:
  "checkpoints (xs @ ys) = checkpoints xs @ checkpoints ys"
  by (induction xs rule: checkpoints.induct) simp_all

lemma scheduler_step_Inr:
  assumes "scheduler_step w t s = Inr s'"
  shows "\<exists>f. lr_warmup_linear_decay w t (last_epoch s + 1) = Inr f
             \<and> s' = emit [SchedulerStep (last_epoch s + 1)]
                      (s\<lparr>last_epoch := last_epoch s + 1, lr_factor := f\<rparr>)"
  using assms by (auto simp: scheduler_step_def py_bind_def Let_def split: sum.splits)

lemma train_loop_Inr:
  assumes "train_loop c w t m bs acc s = Inr (s', obs)"
  shows "last_epoch s' = last_epoch s + int (length bs)
       \<and> count_events is_scheduler_step s' = count_events is_scheduler_step s + length bs
       \<and> model s' = model s \<and> best_model s' = best_model s
       \<and> best_val_metric s' = best_val_metric s
       \<and> fsys s' = fsys s
       \<and> (\<forall>a. a \<noteq> m \<longrightarrow> store s' a = store s a)
       \<and> filter is_new_best (trace s') = filter is_new_best (trace s)
       \<and> test_evaluations (trace s') = test_evaluations (trace s)
       \<and> checkpoints (trace s') = checkpoints (trace s)"
  using assms
proof (induction bs arbitrary: acc s)
  case Nil
  then show ?case by simp
next
  case (Cons b bs)
  obtain p' ob where tb: "train_batch c (store s m) (lr_factor s) b = (p', ob)"
    by (cases "train_batch c (store s m) (lr_factor s) b") auto
  define s1 where "s1 = emit [OptimizerStep] (s\<lparr>store := (store s)(m := p')\<rparr>)"
  from Cons.prems tb obtain s2 where
    st: "scheduler_step w t s1 = Inr s2" and
    rest: "train_loop c w t m bs (acc @ [ob]) s2 = Inr (s', obs)"
    by (auto simp: py_bind_def s1_def split: sum.splits)
  from scheduler_step_Inr [OF st] obtain f where
    s2: "s2 = emit [SchedulerStep (last_epoch s1 + 1)]
                (s1\<lparr>last_epoch := last_epoch s1 + 1, lr_factor := f\<rparr>)"
    by blast
  from Cons.IH [OF rest] show ?case
    by (simp add: s2 s1_def emit_def count_events_def test_evaluations_append
        checkpoints_append)
qed


lemma train_loop_total:
  assumes "w \<noteq> t" and "0 \<le> last_epoch s" and "last_epoch s + int (length bs) \<le> t"
  shows "\<exists>s' obs. train_loop c w t m bs acc s = Inr (s', obs)"
  using assms(2,3)
proof (induction bs arbitrary: acc s)
  case Nil
  then show ?case by simp
next
  case (Cons b bs)
  obtain p' ob where tb: "train_batch c (store s m) (lr_factor s) b = (p', ob)"
    by (cases "train_batch c (store s m) (lr_factor s) b") auto
  define s1 where "s1 = emit [OptimizerStep] (s\<lparr>store := (store s)(m := p')\<rparr>)"
  have le: "last_epoch s1 = last_epoch s" by (simp add: s1_def emit_def)
  from Cons.prems have "0 \<le> last_epoch s + 1" "last_epoch s + 1 \<le> t" by simp_all
  from lr_in_unit_interval [OF assms(1) this] obtain f where
    f: "lr_warmup_linear_decay w t (last_epoch s + 1) = Inr (Finite f)" by blast
  define s2 where "s2 = emit [SchedulerStep (last_epoch s + 1)]
      (s1\<lparr>last_epoch := last_epoch s + 1, lr_factor := Finite f\<rparr>)"
  have st: "scheduler_step w t s1 = Inr s2"
    using f by (simp add: scheduler_step_def py_bind_def Let_def le s2_def)
  have "last_epoch s2 = last_epoch s + 1" by (simp add: s2_def emit_def)
  with Cons.prems have "0 \<le> last_epoch s2" "last_epoch s2 + int (length bs) \<le> t" by simp_all
  from Cons.IH [OF this] obtain s' obs where
    "train_loop c w t m bs (acc @ [ob]) s2 = Inr (s', obs)" by blast
  with tb st show ?case by (simp add: py_bind_def s1_def)
qed

lemma train_one_epoch_Inr:
  assumes "train_one_epoch c w t m bs s = Inr (s', tm)"
  shows "\<exists>obs. train_loop c w t m bs [] s = Inr (s', obs)
           \<and> tm = compute_metrics c obs (int (length bs))"
  using assms by (auto simp: train_one_epoch_def py_bind_def split: sum.splits)

lemma epoch_body_Inr:
  assumes "epoch_body c cfg n w t k s = Inr s'"
  shows "\<exists>s1 tm out.
           train_one_epoch c w t (model s) (train_dl c n k)
             (emit [Print (EpochLine (int k + 1) (epochs cfg))] s) = Inr (s1, tm)
         \<and> manage_best_model_and_metrics (model s1) (evaluation_metric cfg)
             (evaluate c (store s1 (model s1)) Val) (best_val_metric s1) (best_model s1)
             (best_metric_lower_is_better cfg)
           = Inr ((best_val_metric s', best_model s'), out)
         \<and> store s' = store s1 \<and> model s' = model s1 \<and> last_epoch s' = last_epoch s1
         \<and> fsys s' = fsys s1
         \<and> count_events is_scheduler_step s' = count_events is_scheduler_step s1
         \<and> filter is_new_best (trace s')
             = filter is_new_best (trace s1) @ map Print out
         \<and> test_evaluations (trace s') = test_evaluations (trace s1)
         \<and> checkpoints (trace s') = checkpoints (trace s1)"
proof -
  let ?s0 = "emit [Print (EpochLine (int k + 1) (epochs cfg))] s"
  have m0: "model ?s0 = model s" by (simp add: emit_def)
  from assms obtain s1 tm where
    t: "train_one_epoch c w t (model s) (train_dl c n k) ?s0 = Inr (s1, tm)"
    by (auto simp: epoch_body_def py_bind_def Let_def m0 split: sum.splits)
  have nb: "filter is_new_best (map Print out) = map Print out"
    if "manage_best_model_and_metrics mdl name vm best bm lower = Inr (x, out)"
    for mdl :: nat and name vm best bm lower x and out :: "console_line list"
    using that
    by (auto simp: manage_best_model_and_metrics_def metrics_get_def py_bind_def Let_def
        split: option.splits if_splits)
  have te: "test_evaluations (map Print out) = []" for out :: "console_line list"
    by (induction out) simp_all
  have ss: "filter is_scheduler_step (map Print out) = []" for out :: "console_line list"
    by (induction out) simp_all
  have cp: "checkpoints (map Print out) = []" for out :: "console_line list"
    by (induction out) simp_all
  from assms t show ?thesis
    by (auto simp: epoch_body_def py_bind_def Let_def m0 emit_def count_events_def
        test_evaluations_append checkpoints_append te ss cp nb
        split: sum.splits prod.splits)
qed


lemma length_train_dl: "length (train_dl c n k) = nat n"
  by (simp add: train_dl_def)

lemma epoch_body_frame:
  assumes "epoch_body c cfg n w t k s = Inr s'"
  shows "last_epoch s' = last_epoch s + int (nat n)
       \<and> count_events is_scheduler_step s' = count_events is_scheduler_step s + nat n
       \<and> model s' = model s \<and> fsys s' = fsys s
       \<and> (\<forall>a. a \<noteq> model s \<longrightarrow> store s' a = store s a)
       \<and> test_evaluations (trace s') = test_evaluations (trace s)
       \<and> checkpoints (trace s') = checkpoints (trace s)
       \<and> (\<exists>out. manage_best_model_and_metrics (model s) (evaluation_metric cfg)
                   (evaluate c (store s' (model s)) Val) (best_val_metric s) (best_model s)
                   (best_metric_lower_is_better cfg)
                 = Inr ((best_val_metric s', best_model s'), out)
               \<and> filter is_new_best (trace s') = filter is_new_best (trace s) @ map Print out)"
proof -
  let ?s0 = "emit [Print (EpochLine (int k + 1) (epochs cfg))] s"
  from epoch_body_Inr [OF assms] obtain s1 tm out where
    t: "train_one_epoch c w t (model s) (train_dl c n k) ?s0 = Inr (s1, tm)" and
    m: "manage_best_model_and_metrics (model s1) (evaluation_metric cfg)
             (evaluate c (store s1 (model s1)) Val) (best_val_metric s1) (best_model s1)
             (best_metric_lower_is_better cfg)
           = Inr ((best_val_metric s', best_model s'), out)" and
    f: "store s' = store s1" "model s' = model s1" "last_epoch s' = last_epoch s1"
       "fsys s' = fsys s1"
       "count_events is_scheduler_step s' = count_events is_scheduler_step s1"
       "filter is_new_best (trace s') = filter is_new_best (trace s1) @ map Print out"
       "test_evaluations (trace s') = test_evaluations (trace s1)"
       "checkpoints (trace s') = checkpoints (trace s1)"
    by blast
  from train_one_epoch_Inr [OF t] obtain obs where
    "train_loop c w t (model s) (train_dl c n k) [] ?s0 = Inr (s1, obs)" by blast
  from train_loop_Inr [OF this] have
    g: "last_epoch s1 = last_epoch s + int (nat n)"
       "count_events is_scheduler_step s1 = count_events is_scheduler_step s + nat n"
       "model s1 = model s" "best_model s1 = best_model s"
       "best_val_metric s1 = best_val_metric s" "fsys s1 = fsys s"
       "\<forall>a. a \<noteq> model s \<longrightarrow> store s1 a = store s a"
       "filter is_new_best (trace s1) = filter is_new_best (trace s)"
       "test_evaluations (trace s1) = test_evaluations (trace s)"
       "checkpoints (trace s1) = checkpoints (trace s)"
    by (simp_all add: length_train_dl emit_def count_events_def test_evaluations_append
        checkpoints_append)
  from m f g show ?thesis by auto
qed

lemma manage_out_length:
  "manage_best_model_and_metrics mdl name vm best bm lower = Inr (x, out) \<Longrightarrow> length out \<le> 1"
  by (auto simp: manage_best_model_and_metrics_def metrics_get_def py_bind_def Let_def
      split: option.splits if_splits)

lemma manage_model:
  "manage_best_model_and_metrics mdl name vm best bm lower = Inr ((v, r), out)
     \<Longrightarrow> (out \<noteq> [] \<longrightarrow> r = mdl) \<and> (out = [] \<longrightarrow> r = bm \<and> v = best)"
  by (auto simp: manage_best_model_and_metrics_def metrics_get_def py_bind_def Let_def
      split: option.splits if_splits)

lemma epoch_loop_frame:
  assumes "epoch_loop c cfg n w t ks s = Inr s'"
  shows "last_epoch s' = last_epoch s + int (length ks) * int (nat n)
       \<and> count_events is_scheduler_step s' = count_events is_scheduler_step s + length ks * nat n
       \<and> model s' = model s \<and> fsys s' = fsys s
       \<and> (\<forall>a. a \<noteq> model s \<longrightarrow> store s' a = store s a)
       \<and> test_evaluations (trace s') = test_evaluations (trace s)
       \<and> checkpoints (trace s') = checkpoints (trace s)
       \<and> (best_model s' = best_model s \<or> best_model s' = model s)
       \<and> count_events is_new_best s' \<le> count_events is_new_best s + length ks
       \<and> (best_val_metric s \<noteq> NaN \<longrightarrow>
            best_val_metric s' \<noteq> NaN
            \<and> (if best_metric_lower_is_better cfg
               then float_le (best_val_metric s') (best_val_metric s)
               else float_le (best_val_metric s) (best_val_metric s')))"
  using assms
proof (induction ks arbitrary: s)
  case Nil
  then show ?case by (auto simp: float_le_refl)
next
  case (Cons k ks)
  from Cons.prems obtain s1 where
    b: "epoch_body c cfg n w t k s = Inr s1" and
    l: "epoch_loop c cfg n w t ks s1 = Inr s'"
    by (auto simp: py_bind_def split: sum.splits)
  from epoch_body_frame [OF b] obtain out where
    f: "last_epoch s1 = last_epoch s + int (nat n)"
       "count_events is_scheduler_step s1 = count_events is_scheduler_step s + nat n"
       "model s1 = model s" "fsys s1 = fsys s"
       "\<forall>a. a \<noteq> model s \<longrightarrow> store s1 a = store s a"
       "test_evaluations (trace s1) = test_evaluations (trace s)"
       "checkpoints (trace s1) = checkpoints (trace s)" and
    m: "manage_best_model_and_metrics (model s) (evaluation_metric cfg)
                   (evaluate c (store s1 (model s)) Val) (best_val_metric s) (best_model s)
                   (best_metric_lower_is_better cfg)
                 = Inr ((best_val_metric s1, best_model s1), out)" and
    nb: "filter is_new_best (trace s1) = filter is_new_best (trace s) @ map Print out"
    by blast
  have c1: "count_events is_new_best s1 \<le> count_events is_new_best s + 1"
    using manage_out_length [OF m] by (simp add: count_events_def nb)
  have bm: "best_model s1 = best_model s \<or> best_model s1 = model s"
    using manage_model [OF m] by auto
  have mono: "best_val_metric s \<noteq> NaN \<Longrightarrow>
      best_val_metric s1 \<noteq> NaN
      \<and> (if best_metric_lower_is_better cfg
         then float_le (best_val_metric s1) (best_val_metric s)
         else float_le (best_val_metric s) (best_val_metric s1))"
    using manage_monotone [OF m] by simp
  from Cons.IH [OF l] f c1 bm mono show ?case
    by (auto simp: algebra_simps intro: float_le_trans)
qed


lemma finish_Inr:
  assumes "finish c cfg s = Inr s'"
  shows "test_evaluations (trace s')
           = test_evaluations (trace s) @ [(best_model s, store s (best_model s))]
       \<and> checkpoints (trace s')
           = checkpoints (trace s)
             @ [(checkpoint_dir cfg @ ''/'' @ model_name cfg @ ''.pt'', store s (best_model s))]
       \<and> (\<exists>f1. makedirs c (checkpoint_dir cfg) (fsys s) = Inr f1
                \<and> save c (store s (best_model s))
                      (checkpoint_dir cfg @ ''/'' @ model_name cfg @ ''.pt'') f1 = Inr (fsys s'))
       \<and> store s' = store s \<and> model s' = model s \<and> best_model s' = best_model s
       \<and> best_val_metric s' = best_val_metric s \<and> last_epoch s' = last_epoch s
       \<and> count_events is_scheduler_step s' = count_events is_scheduler_step s
       \<and> count_events is_new_best s' = count_events is_new_best s"
  using assms
  by (auto simp: finish_def os_makedirs_def torch_save_def py_bind_def Let_def emit_def
      count_events_def test_evaluations_append checkpoints_append split: sum.splits)

lemma dataloader_len_pos:
  assumes "dataloader_len n bs True = Inr len"
  shows "0 < len"
proof -
  from assms have h: "0 < n" "0 < bs" "len = (n + bs - 1) div bs"
    by (auto simp: dataloader_len_def split: if_splits)
  then have "bs \<le> n + bs - 1" by simp
  with h(2) have "0 < (n + bs - 1) div bs" by (simp only: pos_imp_zdiv_pos_iff)
  with h(3) show ?thesis by simp
qed

lemma slice_len_inside: "0 \<le> a \<Longrightarrow> a \<le> b \<Longrightarrow> b \<le> n \<Longrightarrow> slice_len n a b = b - a"
  by (simp add: slice_len_def slice_index_def)

text \<open>Sizes that are not negative and add up are the lengths of the subsets.\<close>

lemma random_split_sizes:
  assumes "0 \<le> tr" and "0 \<le> te" and "0 \<le> va" and "tr + te + va = n"
  shows "random_split n [tr, te, va] = Inr [tr, te, va]"
proof (cases "n = 1")
  case False
  with assms show ?thesis
    by (simp add: random_split_def py_bind_def slice_len_inside)
next
  case True
  with assms have "(tr, te, va) = (1, 0, 0) \<or> (tr, te, va) = (0, 1, 0) \<or> (tr, te, va) = (0, 0, 1)"
    by auto
  with True show ?thesis
    by (auto simp: random_split_def py_bind_def slice_len_inside)
qed

lemma main_Inr:
  assumes "main c cfg fs = Inr sf"
  shows "\<exists>tr te va a b d len w f0 s1.
           split_sizes (train_ratio cfg) (test_val_ratio cfg) (dataset_size c) = Inr (tr, te, va)
         \<and> random_split (dataset_size c) [tr, te, va] = Inr [a, b, d]
         \<and> dataloader_len a (batch_size cfg) True = Inr len
         \<and> compute_warmup_steps (len * epochs cfg) (warmup_ratio cfg) = Inr w
         \<and> lr_warmup_linear_decay w (len * epochs cfg) 0 = Inr f0
         \<and> epoch_loop c cfg len w (len * epochs cfg) [0..<nat (epochs cfg)]
              (initial_state c cfg f0
                 [Print DeviceLine, Print (TrainSizeLine a), Print (ValidationSizeLine d),
                  Print (TestSizeLine b), Print BlankLine] fs) = Inr s1
         \<and> finish c cfg s1 = Inr sf"
  using assms
  by (auto simp: main_def py_bind_def Let_def
      split: sum.splits prod.splits if_splits list.splits)

lemma main_frame:
  assumes "main c cfg fs = Inr sf"
  shows "\<exists>tr te va a b d len.
           split_sizes (train_ratio cfg) (test_val_ratio cfg) (dataset_size c) = Inr (tr, te, va)
         \<and> random_split (dataset_size c) [tr, te, va] = Inr [a, b, d]
         \<and> dataloader_len a (batch_size cfg) True = Inr len
         \<and> last_epoch sf = int (nat (epochs cfg)) * int (nat len)
         \<and> count_events is_scheduler_step sf = nat (epochs cfg) * nat len
         \<and> count_events is_new_best sf \<le> nat (epochs cfg)
         \<and> model sf = 0 \<and> best_model sf = 0
         \<and> test_evaluations (trace sf) = [(0, store sf 0)]
         \<and> checkpoints (trace sf)
             = [(checkpoint_dir cfg @ ''/'' @ model_name cfg @ ''.pt'', store sf 0)]
         \<and> (\<exists>f1. makedirs c (checkpoint_dir cfg) fs = Inr f1
                  \<and> save c (store sf 0)
                        (checkpoint_dir cfg @ ''/'' @ model_name cfg @ ''.pt'') f1
                      = Inr (fsys sf))
         \<and> best_val_metric sf \<noteq> NaN"
proof -
  from main_Inr [OF assms] obtain tr te va a b d len w f0 s1 where
    sp: "split_sizes (train_ratio cfg) (test_val_ratio cfg) (dataset_size c) = Inr (tr, te, va)" and
    rs: "random_split (dataset_size c) [tr, te, va] = Inr [a, b, d]" and
    dl: "dataloader_len a (batch_size cfg) True = Inr len" and
    el: "epoch_loop c cfg len w (len * epochs cfg) [0..<nat (epochs cfg)]
              (initial_state c cfg f0
                 [Print DeviceLine, Print (TrainSizeLine a), Print (ValidationSizeLine d),
                  Print (TestSizeLine b), Print BlankLine] fs) = Inr s1" and
    fi: "finish c cfg s1 = Inr sf"
    by blast
  let ?s0 = "initial_state c cfg f0
                 [Print DeviceLine, Print (TrainSizeLine a), Print (ValidationSizeLine d),
                  Print (TestSizeLine b), Print BlankLine] fs"
  have i: "last_epoch ?s0 = 0" "count_events is_scheduler_step ?s0 = 0"
    "count_events is_new_best ?s0 = 0" "model ?s0 = 0" "best_model ?s0 = 0"
    "test_evaluations (trace ?s0) = []" "checkpoints (trace ?s0) = []" "fsys ?s0 = fs"
    "best_val_metric ?s0 \<noteq> NaN"
    by (simp_all add: initial_state_def count_events_def)
  from epoch_loop_frame [OF el] i have
    e: "last_epoch s1 = int (nat (epochs cfg)) * int (nat len)"
       "count_events is_scheduler_step s1 = nat (epochs cfg) * nat len"
       "model s1 = 0" "fsys s1 = fs"
       "test_evaluations (trace s1) = []" "checkpoints (trace s1) = []" "best_model s1 = 0"
       "count_events is_new_best s1 \<le> nat (epochs cfg)"
       "best_val_metric s1 \<noteq> NaN"
    by auto
  from finish_Inr [OF fi] e sp rs dl show ?thesis by auto
qed


section \<open>The small run, evaluated\<close>

lemma toy_run:
  "case main toy_collab toy_config empty_fs of
     Inl e \<Rightarrow> False
   | Inr s \<Rightarrow> best_val_metric s = Finite 1 \<and> store s (best_model s) = 2
         \<and> files (fsys s) ''ckpt/m.pt'' = Some 2 \<and> ''ckpt'' \<in> dirs (fsys s)
         \<and> test_evaluations (trace s) = [(0, 2)]
         \<and> checkpoints (trace s) = [(''ckpt/m.pt'', 2)]
         \<and> last_epoch s = 2 \<and> count_events is_new_best s = 1"
  by code_simp

lemma toy_sizes:
  "split_sizes (train_ratio toy_config) (test_val_ratio toy_config) (dataset_size toy_collab)
     = Inr (5, 2, 3)"
  "random_split (dataset_size toy_collab) [5, 2, 3] = Inr [5, 2, 3]"
  "dataloader_len 5 (batch_size toy_config) True = Inr 1"
  by code_simp+

section \<open>The scheduler steps once per batch\<close>

text \<open>
  Claim C6. \<open>train_one_epoch\<close> over a loader of \<open>B\<close> batches advances the scheduler's
  counter by exactly \<open>B\<close>, in \<open>B\<close> scheduler steps, and it does return whenever the
  schedule is defined on the steps it reaches (\<open>warmup_steps\<close> other than \<open>total_steps\<close>,
  and no step beyond \<open>total_steps\<close>). In a whole run nothing else steps the scheduler:
  it ends at \<open>len(train_dl) * epochs\<close>, the \<open>total_steps\<close> computed before the loop,
  \<open>train_dl\<close> being the shuffled loader over the first subset of the split. A hundred
  samples split 70, 15 and 15 give the subsets these lengths, and seventy samples in
  batches of ten are seven batches.
\<close>

theorem scheduler_steps_once_per_batch:
  "(train_one_epoch c w t m bs s = Inr (s', tm) \<longrightarrow>
      last_epoch s' = last_epoch s + int (length bs)
      \<and> count_events is_scheduler_step s' = count_events is_scheduler_step s + length bs)
   \<and> (w \<noteq> t \<and> 0 \<le> last_epoch s \<and> last_epoch s + int (length bs) \<le> t \<longrightarrow>
        (\<exists>s' tm. train_one_epoch c w t m bs s = Inr (s', tm)))
   \<and> (main c cfg fs = Inr sf
        \<and> split_sizes (train_ratio cfg) (test_val_ratio cfg) (dataset_size c) = Inr (tr, te, va)
        \<and> random_split (dataset_size c) [tr, te, va] = Inr [tr', te', va']
        \<and> dataloader_len tr' (batch_size cfg) True = Inr len \<and> 0 \<le> epochs cfg \<longrightarrow>
        last_epoch sf = len * epochs cfg
        \<and> int (count_events is_scheduler_step sf) = len * epochs cfg)
   \<and> random_split 100 [70, 15, 15] = Inr [70, 15, 15]
   \<and> dataloader_len 70 10 True = Inr 7"
proof -
  have p1: "train_one_epoch c w t m bs s = Inr (s', tm) \<longrightarrow>
      last_epoch s' = last_epoch s + int (length bs)
      \<and> count_events is_scheduler_step s' = count_events is_scheduler_step s + length bs"
  proof
    assume "train_one_epoch c w t m bs s = Inr (s', tm)"
    from train_one_epoch_Inr [OF this] obtain obs where
      "train_loop c w t m bs [] s = Inr (s', obs)" by blast
    from train_loop_Inr [OF this]
    show "last_epoch s' = last_epoch s + int (length bs)
      \<and> count_events is_scheduler_step s' = count_events is_scheduler_step s + length bs"
      by simp
  qed
  have p2: "w \<noteq> t \<and> 0 \<le> last_epoch s \<and> last_epoch s + int (length bs) \<le> t \<longrightarrow>
        (\<exists>s' tm. train_one_epoch c w t m bs s = Inr (s', tm))"
  proof
    assume "w \<noteq> t \<and> 0 \<le> last_epoch s \<and> last_epoch s + int (length bs) \<le> t"
    then have "w \<noteq> t" "0 \<le> last_epoch s" "last_epoch s + int (length bs) \<le> t" by simp_all
    from train_loop_total [OF this] obtain s' obs where
      "train_loop c w t m bs [] s = Inr (s', obs)" by blast
    then show "\<exists>s' tm. train_one_epoch c w t m bs s = Inr (s', tm)"
      by (simp add: train_one_epoch_def py_bind_def)
  qed
  have p3: "main c cfg fs = Inr sf
        \<and> split_sizes (train_ratio cfg) (test_val_ratio cfg) (dataset_size c) = Inr (tr, te, va)
        \<and> random_split (dataset_size c) [tr, te, va] = Inr [tr', te', va']
        \<and> dataloader_len tr' (batch_size cfg) True = Inr len \<and> 0 \<le> epochs cfg \<longrightarrow>
        last_epoch sf = len * epochs cfg
        \<and> int (count_events is_scheduler_step sf) = len * epochs cfg"
  proof
    assume h: "main c cfg fs = Inr sf
        \<and> split_sizes (train_ratio cfg) (test_val_ratio cfg) (dataset_size c) = Inr (tr, te, va)
        \<and> random_split (dataset_size c) [tr, te, va] = Inr [tr', te', va']
        \<and> dataloader_len tr' (batch_size cfg) True = Inr len \<and> 0 \<le> epochs cfg"
    then have m: "main c cfg fs = Inr sf"
      and d: "dataloader_len tr' (batch_size cfg) True = Inr len" by simp_all
    from dataloader_len_pos [OF d] have "0 < len" .
    with main_frame [OF m] h
    show "last_epoch sf = len * epochs cfg
        \<and> int (count_events is_scheduler_step sf) = len * epochs cfg"
      by auto
  qed
  have p4: "random_split 100 [70, 15, 15] = Inr [70, 15, 15]"
    by (simp add: random_split_sizes)
  have p5: "dataloader_len 70 10 True = Inr 7" by (simp add: dataloader_len_def)
  from p1 p2 p3 p4 p5 show ?thesis by blast
qed

theorem scheduler_steps_once_per_batch_witness:
  "(\<exists>s' tm. train_one_epoch toy_collab 0 2 0 [0]
               (initial_state toy_collab toy_config (Finite 1) [] empty_fs) = Inr (s', tm)
            \<and> last_epoch s' = 1)
   \<and> (\<exists>sf. main toy_collab toy_config empty_fs = Inr sf \<and> last_epoch sf = 2
            \<and> count_events is_scheduler_step sf = 2)"
proof -
  let ?s0 = "initial_state toy_collab toy_config (Finite 1) [] empty_fs"
  have l0: "last_epoch ?s0 = 0" by (simp add: initial_state_def)
  obtain sf where sf: "main toy_collab toy_config empty_fs = Inr sf"
    using toy_run by (cases "main toy_collab toy_config empty_fs") auto
  have e: "epochs toy_config = 2" by (simp add: toy_config_def)
  have "\<exists>s' tm. train_one_epoch toy_collab 0 2 0 [0] ?s0 = Inr (s', tm)"
    using scheduler_steps_once_per_batch [of toy_collab 0 2 0 "[0]" ?s0] l0 by simp
  then obtain s' tm where st: "train_one_epoch toy_collab 0 2 0 [0] ?s0 = Inr (s', tm)"
    by blast
  have "last_epoch s' = 1"
    using scheduler_steps_once_per_batch [of toy_collab 0 2 0 "[0]" ?s0 s' tm] st l0 by simp
  with st have "\<exists>s' tm. train_one_epoch toy_collab 0 2 0 [0] ?s0 = Inr (s', tm)
      \<and> last_epoch s' = 1" by blast
  moreover have "last_epoch sf = 2 \<and> count_events is_scheduler_step sf = 2"
    using scheduler_steps_once_per_batch
      [of toy_collab 0 2 0 "[0]" ?s0 s' tm toy_config empty_fs sf 5 2 3 5 2 3 1]
      sf toy_sizes e by simp
  ultimately show ?thesis using sf by blast
qed


text \<open>Its two epochs, its first epoch and its first batch, from the state the loop starts in.\<close>

lemma toy_epoch:
  "case epoch_loop toy_collab toy_config 1 0 2 [0, 1]
          (initial_state toy_collab toy_config (Finite 1) [] empty_fs) of
     Inl e \<Rightarrow> False
   | Inr s \<Rightarrow> best_val_metric s = Finite 1 \<and> store s 0 = 2"
  "case epoch_body toy_collab toy_config 1 0 2 0
          (initial_state toy_collab toy_config (Finite 1) [] empty_fs) of
     Inl e \<Rightarrow> False
   | Inr s \<Rightarrow> best_val_metric s = Finite 1 \<and> store s 0 = 1"
  "case train_loop toy_collab 0 2 0 [0] []
          (initial_state toy_collab toy_config (Finite 1) [] empty_fs) of
     Inl e \<Rightarrow> False
   | Inr (s, obs) \<Rightarrow> store s 0 = 1"
  by code_simp+

section \<open>The learning-rate schedule without warmup\<close>

text \<open>
  The scheduler evaluates the multiplier at step 0 when it is constructed and at its
  counter, one more each time, when it steps: never at a negative step. With
  \<open>warmup_steps = 0\<close> and \<open>total_steps\<close> not 0, no such step divides by zero, in a
  scheduler step, in the batch loop or in the epoch loop.
\<close>

lemma lr_zero_warmup_no_zero_division:
  assumes "0 \<le> step" and "t \<noteq> 0"
  shows "lr_warmup_linear_decay 0 t step \<noteq> Inl ZeroDivisionError"
  using assms
  by (simp add: lr_warmup_linear_decay_def int_truediv_def py_bind_def split: float64.splits)

lemma scheduler_step_no_zero_division:
  assumes "0 \<le> last_epoch s" and "t \<noteq> 0"
  shows "scheduler_step 0 t s \<noteq> Inl ZeroDivisionError"
proof -
  have "0 \<le> last_epoch s + 1" using assms(1) by simp
  from lr_zero_warmup_no_zero_division [OF this assms(2)] show ?thesis
    by (auto simp: scheduler_step_def py_bind_def Let_def split: sum.splits)
qed

lemma train_loop_no_zero_division:
  assumes "t \<noteq> 0" and "0 \<le> last_epoch s"
  shows "train_loop c 0 t m bs acc s \<noteq> Inl ZeroDivisionError"
  using assms(2)
proof (induction bs arbitrary: acc s)
  case Nil
  then show ?case by simp
next
  case (Cons b bs)
  obtain p' ob where tb: "train_batch c (store s m) (lr_factor s) b = (p', ob)"
    by (cases "train_batch c (store s m) (lr_factor s) b") auto
  define s1 where "s1 = emit [OptimizerStep] (s\<lparr>store := (store s)(m := p')\<rparr>)"
  have le: "last_epoch s1 = last_epoch s" by (simp add: s1_def emit_def)
  with Cons.prems have "0 \<le> last_epoch s1" by simp
  from scheduler_step_no_zero_division [OF this assms(1)]
  have nz: "scheduler_step 0 t s1 \<noteq> Inl ZeroDivisionError" .
  show ?case
  proof (cases "scheduler_step 0 t s1")
    case (Inl e)
    with nz tb show ?thesis by (simp add: py_bind_def s1_def)
  next
    case (Inr s2)
    from scheduler_step_Inr [OF Inr] le Cons.prems have "0 \<le> last_epoch s2"
      by (auto simp: emit_def)
    from Cons.IH [OF this] Inr tb show ?thesis by (simp add: py_bind_def s1_def)
  qed
qed

lemma epoch_body_no_zero_division:
  assumes "t \<noteq> 0" and "0 \<le> last_epoch s"
  shows "epoch_body c cfg n 0 t k s \<noteq> Inl ZeroDivisionError"
proof
  assume a: "epoch_body c cfg n 0 t k s = Inl ZeroDivisionError"
  let ?s0 = "emit [Print (EpochLine (int k + 1) (epochs cfg))] s"
  have "0 \<le> last_epoch ?s0" using assms(2) by (simp add: emit_def)
  from train_loop_no_zero_division [OF assms(1) this]
  have "train_loop c 0 t (model ?s0) (train_dl c n k) [] ?s0 \<noteq> Inl ZeroDivisionError" .
  with a show False
    by (auto simp: epoch_body_def train_one_epoch_def py_bind_def Let_def metrics_get_def
        manage_best_model_and_metrics_def split: sum.splits prod.splits option.splits if_splits)
qed

lemma epoch_loop_no_zero_division:
  assumes "t \<noteq> 0" and "0 \<le> last_epoch s"
  shows "epoch_loop c cfg n 0 t ks s \<noteq> Inl ZeroDivisionError"
  using assms(2)
proof (induction ks arbitrary: s)
  case Nil
  then show ?case by simp
next
  case (Cons k ks)
  from epoch_body_no_zero_division [OF assms(1) Cons.prems]
  have nz: "epoch_body c cfg n 0 t k s \<noteq> Inl ZeroDivisionError" .
  show ?case
  proof (cases "epoch_body c cfg n 0 t k s")
    case (Inl e)
    with nz show ?thesis by (simp add: py_bind_def)
  next
    case (Inr s1)
    from epoch_body_frame [OF Inr] Cons.prems have "0 \<le> last_epoch s1" by simp
    from Cons.IH [OF this] Inr show ?thesis by (simp add: py_bind_def)
  qed
qed

text \<open>
  Claim C4, as stated, fails on the steps the multiplier is evaluated at. With
  \<open>warmup_ratio = 0.0\<close> the number of warmup steps is 0, and the multiplier is 1 at step
  0, \<open>0.99\<close> at step 1 and 0 from step 100 on when there are 100 steps: the condition
  \<open>step < warmup_steps\<close> is false, and \<open>step / warmup_steps\<close> is not evaluated. The small
  run, which has no warmup, raises no \<open>ZeroDivisionError\<close>.
\<close>

theorem warmup_zero_division_counterexample:
  "compute_warmup_steps 100 (Finite 0) = Inr 0
   \<and> lr_warmup_linear_decay 0 100 0 = Inr (Finite 1)
   \<and> lr_warmup_linear_decay 0 100 1 = Inr (Finite (4458563631096791 / 4503599627370496))
   \<and> lr_warmup_linear_decay 0 100 100 = Inr (Finite 0)
   \<and> lr_warmup_linear_decay 0 100 101 = Inr (Finite 0)
   \<and> compute_warmup_steps 2 (warmup_ratio toy_config) = Inr 0
   \<and> main toy_collab toy_config empty_fs \<noteq> Inl ZeroDivisionError"
proof -
  have "compute_warmup_steps 100 (Finite 0) = Inr 0"
    "lr_warmup_linear_decay 0 100 0 = Inr (Finite 1)"
    "lr_warmup_linear_decay 0 100 1 = Inr (Finite (4458563631096791 / 4503599627370496))"
    "lr_warmup_linear_decay 0 100 100 = Inr (Finite 0)"
    "lr_warmup_linear_decay 0 100 101 = Inr (Finite 0)"
    "compute_warmup_steps 2 (warmup_ratio toy_config) = Inr 0"
    by code_simp+
  moreover have "main toy_collab toy_config empty_fs \<noteq> Inl ZeroDivisionError"
    using toy_run by (cases "main toy_collab toy_config empty_fs") auto
  ultimately show ?thesis by blast
qed

text \<open>
  Claim C4, amended. With \<open>warmup_steps = 0\<close>, a step that is not negative takes the
  decay branch: the multiplier is \<open>max(0.0, (total_steps - step) / total_steps)\<close>. It
  raises no \<open>ZeroDivisionError\<close> unless \<open>total_steps\<close> is 0 as well, and then it is the
  decay branch that divides by zero; up to \<open>total_steps\<close> it is a value between 0 and 1.
  Only a negative step reaches \<open>step / warmup_steps\<close>, which nothing guards, and no
  scheduler step, batch loop or epoch loop starting from a counter that is not negative
  evaluates the multiplier there.
\<close>

theorem warmup_zero_takes_decay_branch:
  assumes "warmup_steps = 0"
  shows "(0 \<le> step \<longrightarrow>
            lr_warmup_linear_decay warmup_steps total_steps step
              = py_bind (int_truediv (total_steps - step) total_steps)
                  (\<lambda>x. Inr (float_max (Finite 0) x)))
       \<and> (0 \<le> step \<and> total_steps \<noteq> 0 \<longrightarrow>
            lr_warmup_linear_decay warmup_steps total_steps step \<noteq> Inl ZeroDivisionError)
       \<and> (0 \<le> step \<and> step \<le> total_steps \<and> total_steps \<noteq> 0 \<longrightarrow>
            (\<exists>r. lr_warmup_linear_decay warmup_steps total_steps step = Inr (Finite r)
                 \<and> 0 \<le> r \<and> r \<le> 1))
       \<and> (0 \<le> step \<and> total_steps = 0 \<longrightarrow>
            lr_warmup_linear_decay warmup_steps total_steps step = Inl ZeroDivisionError)
       \<and> (step < 0 \<longrightarrow>
            lr_warmup_linear_decay warmup_steps total_steps step = Inl ZeroDivisionError)
       \<and> (0 \<le> last_epoch s \<and> total_steps \<noteq> 0 \<longrightarrow>
            scheduler_step warmup_steps total_steps s \<noteq> Inl ZeroDivisionError
            \<and> train_loop c warmup_steps total_steps m bs acc s \<noteq> Inl ZeroDivisionError
            \<and> epoch_loop c cfg n warmup_steps total_steps ks s \<noteq> Inl ZeroDivisionError)"
proof -
  have p1: "0 \<le> step \<longrightarrow>
            lr_warmup_linear_decay warmup_steps total_steps step
              = py_bind (int_truediv (total_steps - step) total_steps)
                  (\<lambda>x. Inr (float_max (Finite 0) x))"
    using assms by (simp add: lr_warmup_linear_decay_def)
  have p2: "0 \<le> step \<and> total_steps \<noteq> 0 \<longrightarrow>
            lr_warmup_linear_decay warmup_steps total_steps step \<noteq> Inl ZeroDivisionError"
    using assms lr_zero_warmup_no_zero_division [of step total_steps] by simp
  have p3: "0 \<le> step \<and> step \<le> total_steps \<and> total_steps \<noteq> 0 \<longrightarrow>
            (\<exists>r. lr_warmup_linear_decay warmup_steps total_steps step = Inr (Finite r)
                 \<and> 0 \<le> r \<and> r \<le> 1)"
    using assms lr_without_warmup [of step total_steps] by simp
  have p4: "0 \<le> step \<and> total_steps = 0 \<longrightarrow>
            lr_warmup_linear_decay warmup_steps total_steps step = Inl ZeroDivisionError"
    using assms by (simp add: lr_warmup_linear_decay_def int_truediv_def py_bind_def)
  have p5: "step < 0 \<longrightarrow>
            lr_warmup_linear_decay warmup_steps total_steps step = Inl ZeroDivisionError"
    using assms by (simp add: lr_warmup_linear_decay_def int_truediv_def)
  have p6: "0 \<le> last_epoch s \<and> total_steps \<noteq> 0 \<longrightarrow>
            scheduler_step warmup_steps total_steps s \<noteq> Inl ZeroDivisionError
            \<and> train_loop c warmup_steps total_steps m bs acc s \<noteq> Inl ZeroDivisionError
            \<and> epoch_loop c cfg n warmup_steps total_steps ks s \<noteq> Inl ZeroDivisionError"
    using assms scheduler_step_no_zero_division [of s total_steps]
      train_loop_no_zero_division [of total_steps s c m bs acc]
      epoch_loop_no_zero_division [of total_steps s c cfg n ks]
    by simp
  from p1 p2 p3 p4 p5 p6 show ?thesis by blast
qed

theorem warmup_zero_takes_decay_branch_witness:
  "lr_warmup_linear_decay 0 100 1 = Inr (Finite (4458563631096791 / 4503599627370496))
   \<and> lr_warmup_linear_decay 0 100 1 \<noteq> Inl ZeroDivisionError
   \<and> (\<exists>r. lr_warmup_linear_decay 0 100 100 = Inr (Finite r) \<and> 0 \<le> r \<and> r \<le> 1)
   \<and> lr_warmup_linear_decay 0 0 0 = Inl ZeroDivisionError
   \<and> lr_warmup_linear_decay 0 100 (- 1) = Inl ZeroDivisionError
   \<and> epoch_loop toy_collab toy_config 1 0 2 [0, 1]
        (initial_state toy_collab toy_config (Finite 1) [] empty_fs) \<noteq> Inl ZeroDivisionError"
proof -
  let ?s0 = "initial_state toy_collab toy_config (Finite 1) [] empty_fs"
  note t = warmup_zero_takes_decay_branch [OF refl]
  have e: "py_bind (int_truediv (100 - 1) 100) (\<lambda>x. Inr (float_max (Finite 0) x))
      = Inr (Finite (4458563631096791 / 4503599627370496))"
    by code_simp
  have l0: "0 \<le> last_epoch ?s0" by (simp add: initial_state_def)
  have n2: "(2::int) \<noteq> 0" by simp
  have a: "lr_warmup_linear_decay 0 100 1 = Inr (Finite (4458563631096791 / 4503599627370496))"
    using t [THEN conjunct1, of 1 100] e by simp
  have b: "lr_warmup_linear_decay 0 100 1 \<noteq> Inl ZeroDivisionError"
    using t [THEN conjunct2, THEN conjunct1, of 1 100] by simp
  have c: "\<exists>r. lr_warmup_linear_decay 0 100 100 = Inr (Finite r) \<and> 0 \<le> r \<and> r \<le> 1"
    using t [THEN conjunct2, THEN conjunct2, THEN conjunct1, of 100 100] by simp
  have d: "lr_warmup_linear_decay 0 0 0 = Inl ZeroDivisionError"
    using t [THEN conjunct2, THEN conjunct2, THEN conjunct2, THEN conjunct1, of 0 0] by simp
  have f: "lr_warmup_linear_decay 0 100 (- 1) = Inl ZeroDivisionError"
    using t [THEN conjunct2, THEN conjunct2, THEN conjunct2, THEN conjunct2, THEN conjunct1,
        of "- 1" 100] by simp
  have g: "epoch_loop toy_collab toy_config 1 0 2 [0, 1] ?s0 \<noteq> Inl ZeroDivisionError"
    using t [THEN conjunct2, THEN conjunct2, THEN conjunct2, THEN conjunct2, THEN conjunct2,
        of ?s0 2 toy_collab 0 "[]" "[]" toy_config 1 "[0, 1]"] l0 n2 by blast
  from a b c d f g show ?thesis by blast
qed

section \<open>The best-model tracking state\<close>

text \<open>
  Claim C7. The loop starts from a state whose best metric is \<open>+inf\<close> when lower is better
  and \<open>-inf\<close> otherwise, and whose best model is the model just created. One iteration of
  the loop changes the pair by one call of the selector, on the validation metrics of the
  model as trained so far, and so announces at most one new best; a run announces at most
  as many as it has epochs.
\<close>

theorem best_tracking_state:
  "best_val_metric (initial_state c cfg f0 banner fs)
     = (if best_metric_lower_is_better cfg then PInf else NInf)
   \<and> best_model (initial_state c cfg f0 banner fs)
       = model (initial_state c cfg f0 banner fs)
   \<and> (main c cfg fs = Inr sf \<longrightarrow>
        (\<exists>len w f0 banner s1.
           epoch_loop c cfg len w (len * epochs cfg) [0..<nat (epochs cfg)]
             (initial_state c cfg f0 banner fs) = Inr s1
           \<and> finish c cfg s1 = Inr sf)
        \<and> count_events is_new_best sf \<le> nat (epochs cfg))
   \<and> (epoch_body c cfg n w t k s = Inr s' \<longrightarrow>
        (\<exists>out. manage_best_model_and_metrics (model s) (evaluation_metric cfg)
                  (evaluate c (store s' (model s)) Val) (best_val_metric s) (best_model s)
                  (best_metric_lower_is_better cfg)
                = Inr ((best_val_metric s', best_model s'), out))
        \<and> count_events is_new_best s' \<le> count_events is_new_best s + 1)"
proof -
  have p1: "best_val_metric (initial_state c cfg f0 banner fs)
     = (if best_metric_lower_is_better cfg then PInf else NInf)"
    and p2: "best_model (initial_state c cfg f0 banner fs)
       = model (initial_state c cfg f0 banner fs)"
    by (simp_all add: initial_state_def)
  have p3: "main c cfg fs = Inr sf \<longrightarrow>
        (\<exists>len w f0 banner s1.
           epoch_loop c cfg len w (len * epochs cfg) [0..<nat (epochs cfg)]
             (initial_state c cfg f0 banner fs) = Inr s1
           \<and> finish c cfg s1 = Inr sf)
        \<and> count_events is_new_best sf \<le> nat (epochs cfg)"
  proof
    assume m: "main c cfg fs = Inr sf"
    from main_Inr [OF m] have "\<exists>len w f0 banner s1.
           epoch_loop c cfg len w (len * epochs cfg) [0..<nat (epochs cfg)]
             (initial_state c cfg f0 banner fs) = Inr s1
           \<and> finish c cfg s1 = Inr sf"
      by blast
    moreover from main_frame [OF m] have "count_events is_new_best sf \<le> nat (epochs cfg)"
      by blast
    ultimately show "(\<exists>len w f0 banner s1.
           epoch_loop c cfg len w (len * epochs cfg) [0..<nat (epochs cfg)]
             (initial_state c cfg f0 banner fs) = Inr s1
           \<and> finish c cfg s1 = Inr sf)
        \<and> count_events is_new_best sf \<le> nat (epochs cfg)" by blast
  qed
  have p4: "epoch_body c cfg n w t k s = Inr s' \<longrightarrow>
        (\<exists>out. manage_best_model_and_metrics (model s) (evaluation_metric cfg)
                  (evaluate c (store s' (model s)) Val) (best_val_metric s) (best_model s)
                  (best_metric_lower_is_better cfg)
                = Inr ((best_val_metric s', best_model s'), out))
        \<and> count_events is_new_best s' \<le> count_events is_new_best s + 1"
  proof
    assume "epoch_body c cfg n w t k s = Inr s'"
    from epoch_body_frame [OF this] obtain out where
      m: "manage_best_model_and_metrics (model s) (evaluation_metric cfg)
                   (evaluate c (store s' (model s)) Val) (best_val_metric s) (best_model s)
                   (best_metric_lower_is_better cfg)
                 = Inr ((best_val_metric s', best_model s'), out)" and
      nb: "filter is_new_best (trace s') = filter is_new_best (trace s) @ map Print out"
      by blast
    from manage_out_length [OF m] nb
    have "count_events is_new_best s' \<le> count_events is_new_best s + 1"
      by (simp add: count_events_def)
    with m show "(\<exists>out. manage_best_model_and_metrics (model s) (evaluation_metric cfg)
                  (evaluate c (store s' (model s)) Val) (best_val_metric s) (best_model s)
                  (best_metric_lower_is_better cfg)
                = Inr ((best_val_metric s', best_model s'), out))
        \<and> count_events is_new_best s' \<le> count_events is_new_best s + 1" by blast
  qed
  from p1 p2 p3 p4 show ?thesis by blast
qed

theorem best_tracking_state_witness:
  "(\<exists>sf. main toy_collab toy_config empty_fs = Inr sf
          \<and> count_events is_new_best sf \<le> 2)
   \<and> (\<exists>s'. epoch_body toy_collab toy_config 1 0 2 0
              (initial_state toy_collab toy_config (Finite 1) [] empty_fs) = Inr s'
          \<and> count_events is_new_best s' \<le> 1)"
proof -
  let ?s0 = "initial_state toy_collab toy_config (Finite 1) [] empty_fs"
  obtain sf where sf: "main toy_collab toy_config empty_fs = Inr sf"
    using toy_run by (cases "main toy_collab toy_config empty_fs") auto
  obtain s' where s': "epoch_body toy_collab toy_config 1 0 2 0 ?s0 = Inr s'"
    using toy_epoch(2) by (cases "epoch_body toy_collab toy_config 1 0 2 0 ?s0") auto
  have e: "nat (epochs toy_config) = 2" by (simp add: toy_config_def)
  have n: "count_events is_new_best ?s0 = 0" by (simp add: initial_state_def count_events_def)
  from best_tracking_state
    [of toy_collab toy_config "Finite 1" "[]" empty_fs sf 1 0 2 0 ?s0 s'] sf s' e n
  show ?thesis by auto
qed


lemma train_loop_single:
  assumes "train_loop c w t m [b] acc s = Inr (s', obs)"
  shows "store s' m = fst (train_batch c (store s m) (lr_factor s) b)"
proof -
  obtain p' ob where tb: "train_batch c (store s m) (lr_factor s) b = (p', ob)"
    by (cases "train_batch c (store s m) (lr_factor s) b") auto
  define s1 where "s1 = emit [OptimizerStep] (s\<lparr>store := (store s)(m := p')\<rparr>)"
  from assms tb have st: "scheduler_step w t s1 = Inr s'"
    by (auto simp: py_bind_def s1_def split: sum.splits)
  from scheduler_step_Inr [OF st] tb show ?thesis
    by (auto simp: s1_def emit_def)
qed

section \<open>The best model is the live model\<close>

text \<open>
  Claim C5. On a win the selector returns the very reference it was given as \<open>model\<close>:
  nothing is copied. The loop therefore keeps \<open>best_model\<close> and \<open>model\<close> at the same
  address, and an optimizer step on \<open>model\<close> is read back through \<open>best_model\<close>: after a
  batch, the parameters of the best model are those the batch produced.
\<close>

theorem best_model_aliases_live_model:
  "(manage_best_model_and_metrics mdl name vm best bm lower = Inr ((v, r), out)
      \<and> vm name = Some metric
      \<and> (if lower then float_le metric best else float_gt metric best) \<longrightarrow>
        r = mdl \<and> v = metric)
   \<and> (epoch_loop c cfg n w t ks s = Inr s' \<and> best_model s = model s \<longrightarrow>
        best_model s' = model s')
   \<and> (train_loop c w t (model s) [b] acc s = Inr (s1, obs) \<and> best_model s = model s \<longrightarrow>
        best_model s1 = model s1
        \<and> store s1 (best_model s1) = fst (train_batch c (store s (model s)) (lr_factor s) b))
   \<and> (main c cfg fs = Inr sf \<longrightarrow> best_model sf = model sf)"
proof -
  have p1: "manage_best_model_and_metrics mdl name vm best bm lower = Inr ((v, r), out)
      \<and> vm name = Some metric
      \<and> (if lower then float_le metric best else float_gt metric best) \<longrightarrow>
        r = mdl \<and> v = metric"
    by (auto simp: manage_best_model_and_metrics_def metrics_get_def py_bind_def Let_def
        split: if_splits)
  have p2: "epoch_loop c cfg n w t ks s = Inr s' \<and> best_model s = model s \<longrightarrow>
        best_model s' = model s'"
    using epoch_loop_frame [of c cfg n w t ks s s'] by auto
  have p3: "train_loop c w t (model s) [b] acc s = Inr (s1, obs) \<and> best_model s = model s \<longrightarrow>
        best_model s1 = model s1
        \<and> store s1 (best_model s1) = fst (train_batch c (store s (model s)) (lr_factor s) b)"
    using train_loop_Inr [of c w t "model s" "[b]" acc s s1 obs]
      train_loop_single [of c w t "model s" b acc s s1 obs] by auto
  have p4: "main c cfg fs = Inr sf \<longrightarrow> best_model sf = model sf"
    using main_frame [of c cfg fs sf] by auto
  from p1 p2 p3 p4 show ?thesis by blast
qed

theorem best_model_aliases_live_model_witness:
  "manage_best_model_and_metrics (7::nat) ''loss'' [''loss'' \<mapsto> Finite 1] PInf 3 True
     = Inr ((Finite 1, 7), [NewBestLine ''loss'' (Finite 1)])
   \<and> (\<exists>s'. epoch_loop toy_collab toy_config 1 0 2 [0, 1]
              (initial_state toy_collab toy_config (Finite 1) [] empty_fs) = Inr s'
          \<and> best_model s' = model s')
   \<and> (\<exists>s1 obs. train_loop toy_collab 0 2 0 [0] []
              (initial_state toy_collab toy_config (Finite 1) [] empty_fs) = Inr (s1, obs)
          \<and> store s1 (best_model s1) = 1)
   \<and> (\<exists>sf. main toy_collab toy_config empty_fs = Inr sf \<and> best_model sf = model sf)"
proof -
  let ?s0 = "initial_state toy_collab toy_config (Finite 1) [] empty_fs"
  have i: "best_model ?s0 = model ?s0" "model ?s0 = 0" "store ?s0 0 = 0"
    by (simp_all add: initial_state_def toy_collab_def)
  have tb: "fst (train_batch toy_collab 0 (lr_factor ?s0) 0) = 1"
    by (simp add: toy_collab_def)
  have m: "manage_best_model_and_metrics (7::nat) ''loss'' [''loss'' \<mapsto> Finite 1] PInf 3 True
     = Inr ((Finite 1, 7), [NewBestLine ''loss'' (Finite 1)])"
    by (simp add: manage_best_model_and_metrics_def metrics_get_def py_bind_def)
  obtain sf where sf: "main toy_collab toy_config empty_fs = Inr sf"
    using toy_run by (cases "main toy_collab toy_config empty_fs") auto
  obtain s' where s': "epoch_loop toy_collab toy_config 1 0 2 [0, 1] ?s0 = Inr s'"
    using toy_epoch(1) by (cases "epoch_loop toy_collab toy_config 1 0 2 [0, 1] ?s0") auto
  obtain s1 obs where s1: "train_loop toy_collab 0 2 0 [0] [] ?s0 = Inr (s1, obs)"
    using toy_epoch(3) by (cases "train_loop toy_collab 0 2 0 [0] [] ?s0") auto
  note t = best_model_aliases_live_model
  have a: "best_model s' = model s'"
    using t [THEN conjunct2, THEN conjunct1, of toy_collab toy_config 1 0 2 "[0, 1]" ?s0 s']
      s' i(1) by blast
  have s1': "train_loop toy_collab 0 2 (model ?s0) [0] [] ?s0 = Inr (s1, obs)"
    using s1 by (simp only: i(2))
  have "best_model s1 = model s1
      \<and> store s1 (best_model s1)
          = fst (train_batch toy_collab (store ?s0 (model ?s0)) (lr_factor ?s0) 0)"
    using t [THEN conjunct2, THEN conjunct2, THEN conjunct1, of toy_collab 0 2 ?s0 0 "[]" s1 obs]
      s1' i(1) by blast
  then have "store s1 (best_model s1)
      = fst (train_batch toy_collab (store ?s0 (model ?s0)) (lr_factor ?s0) 0)" by blast
  also have "\<dots> = 1" by (simp only: i(2,3) tb)
  finally have b: "store s1 (best_model s1) = 1" .
  have c: "best_model sf = model sf"
    using t [THEN conjunct2, THEN conjunct2, THEN conjunct2, of toy_collab toy_config empty_fs sf] sf by blast
  have "(7::nat) = 7 \<and> Finite 1 = Finite 1"
    using t [THEN conjunct1, of "7::nat" "''loss''" "[''loss'' \<mapsto> Finite 1]" PInf 3 True
        "Finite 1" 7 "[NewBestLine ''loss'' (Finite 1)]" "Finite 1"] m by simp
  from m a b c s' s1 sf show ?thesis by blast
qed

section \<open>The best metric as a minimum or maximum\<close>

text \<open>
  Claim C10, as stated, fails when the candidate metric is a NaN: the selector keeps the
  best value so far, while \<open>min(nan, 1.0)\<close> is the NaN.
\<close>

theorem best_metric_min_counterexample:
  "manage_best_model_and_metrics (1::nat) ''loss'' [''loss'' \<mapsto> NaN] (Finite 1) 0 True
     = Inr ((Finite 1, 0), [])
   \<and> float_min NaN (Finite 1) \<noteq> Finite 1"
  by (simp add: manage_best_model_and_metrics_def metrics_get_def py_bind_def float_min_def)

text \<open>
  Claim C10, amended. When neither the candidate nor the best so far is a NaN, the value
  returned is \<open>min(metric, best_val_metric)\<close> if lower is better and
  \<open>max(metric, best_val_metric)\<close> otherwise; a NaN candidate never wins. The best value
  tracked by the loop starts at an infinity, never becomes a NaN, and over one iteration
  and over any number of them it never increases if lower is better and never decreases
  otherwise.
\<close>

theorem best_metric_is_min_or_max:
  "(manage_best_model_and_metrics mdl name vm best bm lower = Inr ((v, r), out)
      \<and> vm name = Some metric \<and> metric \<noteq> NaN \<and> best \<noteq> NaN \<longrightarrow>
        v = (if lower then float_min metric best else float_max metric best))
   \<and> (manage_best_model_and_metrics mdl name vm best bm lower = Inr ((v, r), out)
      \<and> vm name = Some NaN \<longrightarrow> v = best \<and> r = bm)
   \<and> (epoch_body c cfg n w t k s = Inr s1 \<and> best_val_metric s \<noteq> NaN \<longrightarrow>
        best_val_metric s1 \<noteq> NaN
        \<and> (if best_metric_lower_is_better cfg
           then float_le (best_val_metric s1) (best_val_metric s)
           else float_le (best_val_metric s) (best_val_metric s1)))
   \<and> (epoch_loop c cfg n w t ks s = Inr s' \<and> best_val_metric s \<noteq> NaN \<longrightarrow>
        best_val_metric s' \<noteq> NaN
        \<and> (if best_metric_lower_is_better cfg
           then float_le (best_val_metric s') (best_val_metric s)
           else float_le (best_val_metric s) (best_val_metric s')))"
proof -
  have p1: "manage_best_model_and_metrics mdl name vm best bm lower = Inr ((v, r), out)
      \<and> vm name = Some metric \<and> metric \<noteq> NaN \<and> best \<noteq> NaN \<longrightarrow>
        v = (if lower then float_min metric best else float_max metric best)"
    using manage_min_max [of mdl name vm best bm lower v r out metric] by blast
  have p2: "manage_best_model_and_metrics mdl name vm best bm lower = Inr ((v, r), out)
      \<and> vm name = Some NaN \<longrightarrow> v = best \<and> r = bm"
    using manage_min_max [of mdl name vm best bm lower v r out NaN] by blast
  have p3: "epoch_body c cfg n w t k s = Inr s1 \<and> best_val_metric s \<noteq> NaN \<longrightarrow>
        best_val_metric s1 \<noteq> NaN
        \<and> (if best_metric_lower_is_better cfg
           then float_le (best_val_metric s1) (best_val_metric s)
           else float_le (best_val_metric s) (best_val_metric s1))"
    using epoch_loop_frame [of c cfg n w t "[k]" s s1] by (simp add: py_bind_def split: sum.splits)
  have p4: "epoch_loop c cfg n w t ks s = Inr s' \<and> best_val_metric s \<noteq> NaN \<longrightarrow>
        best_val_metric s' \<noteq> NaN
        \<and> (if best_metric_lower_is_better cfg
           then float_le (best_val_metric s') (best_val_metric s)
           else float_le (best_val_metric s) (best_val_metric s'))"
    using epoch_loop_frame [of c cfg n w t ks s s'] by blast
  from p1 p2 p3 p4 show ?thesis by blast
qed

theorem best_metric_is_min_or_max_witness:
  "manage_best_model_and_metrics (1::nat) ''loss'' [''loss'' \<mapsto> Finite 2] (Finite 1) 0 True
     = Inr ((float_min (Finite 2) (Finite 1), 0), [])
   \<and> manage_best_model_and_metrics (1::nat) ''loss'' [''loss'' \<mapsto> NaN] (Finite 1) 0 True
     = Inr ((Finite 1, 0), [])
   \<and> (\<exists>s1. epoch_body toy_collab toy_config 1 0 2 0
              (initial_state toy_collab toy_config (Finite 1) [] empty_fs) = Inr s1
          \<and> float_le (best_val_metric s1) PInf)
   \<and> (\<exists>s'. epoch_loop toy_collab toy_config 1 0 2 [0, 1]
              (initial_state toy_collab toy_config (Finite 1) [] empty_fs) = Inr s'
          \<and> float_le (best_val_metric s') PInf)"
proof -
  let ?s0 = "initial_state toy_collab toy_config (Finite 1) [] empty_fs"
  have i: "best_val_metric ?s0 = PInf" "best_metric_lower_is_better toy_config"
    by (simp_all add: initial_state_def toy_config_def)
  have m1: "manage_best_model_and_metrics (1::nat) ''loss'' [''loss'' \<mapsto> Finite 2] (Finite 1) 0
      True = Inr ((Finite 1, 0), [])"
    and m2: "manage_best_model_and_metrics (1::nat) ''loss'' [''loss'' \<mapsto> NaN] (Finite 1) 0
      True = Inr ((Finite 1, 0), [])"
    by (simp_all add: manage_best_model_and_metrics_def metrics_get_def py_bind_def)
  obtain s' where s': "epoch_loop toy_collab toy_config 1 0 2 [0, 1] ?s0 = Inr s'"
    using toy_epoch(1) by (cases "epoch_loop toy_collab toy_config 1 0 2 [0, 1] ?s0") auto
  obtain s1 where s1: "epoch_body toy_collab toy_config 1 0 2 0 ?s0 = Inr s1"
    using toy_epoch(2) by (cases "epoch_body toy_collab toy_config 1 0 2 0 ?s0") auto
  note t = best_metric_is_min_or_max
  have a: "Finite 1 = float_min (Finite 2) (Finite 1)"
    using t [THEN conjunct1, of "1::nat" "''loss''" "[''loss'' \<mapsto> Finite 2]" "Finite 1" 0 True
        "Finite 1" 0 "[]" "Finite 2"] m1 by simp
  have "Finite 1 = Finite 1 \<and> (0::nat) = 0"
    using t [THEN conjunct2, THEN conjunct1, of "1::nat" "''loss''" "[''loss'' \<mapsto> NaN]"
        "Finite 1" 0 True "Finite 1" 0 "[]"] m2 by simp
  have b: "float_le (best_val_metric s1) PInf"
    using t [THEN conjunct2, THEN conjunct2, THEN conjunct1,
        of toy_collab toy_config 1 0 2 0 ?s0 s1] s1 i by simp
  have c: "float_le (best_val_metric s') PInf"
    using t [THEN conjunct2, THEN conjunct2, THEN conjunct2,
        of toy_collab toy_config 1 0 2 "[0, 1]" ?s0 s'] s' i by simp
  from m1 m2 a b c s1 s' show ?thesis by auto
qed

section \<open>The test evaluation and the checkpoint\<close>

text \<open>
  Claim C8 on the small run. The best validation loss, 1, is that of the parameters after
  the first epoch; after the second epoch they have loss 2. The run evaluates on the test
  set once, and evaluates and saves the parameters after the second epoch: \<open>best_model\<close>
  is the live model (lemma \<open>main_frame\<close>: in every run the test evaluation and the
  checkpoint hold the final contents of the one module), not the model that was best.
  The rest of the claim holds in every run (\<open>main_frame\<close> again): one test evaluation,
  then \<open>os.makedirs\<close> on the checkpoint directory and one \<open>torch.save\<close> to
  \<open>{checkpoint_dir}/{model_name}.pt\<close>, whatever that file held.
\<close>

theorem test_evaluation_sees_final_parameters:
  "\<exists>sf. main toy_collab toy_config empty_fs = Inr sf
        \<and> best_val_metric sf = Finite 1
        \<and> evaluate toy_collab 1 Val ''loss'' = Some (Finite 1)
        \<and> evaluate toy_collab 2 Val ''loss'' = Some (Finite 2)
        \<and> test_evaluations (trace sf) = [(0, 2)]
        \<and> checkpoints (trace sf) = [(''ckpt/m.pt'', 2)]
        \<and> files (fsys sf) ''ckpt/m.pt'' = Some 2"
proof -
  have "evaluate toy_collab 1 Val ''loss'' = Some (Finite 1)"
    "evaluate toy_collab 2 Val ''loss'' = Some (Finite 2)"
    by (simp_all add: toy_collab_def)
  with toy_run show ?thesis
    by (cases "main toy_collab toy_config empty_fs") auto
qed

end
